theory Spec2Isabelle
  imports Complex_Main
begin

section \<open>GGompertz/NBD log-likelihood: embedding of \<^verbatim>\<open>ggomnbd_LL.cpp\<close>\<close>

text \<open>
  Conventions of the embedding.
  \<^item> A \<^verbatim>\<open>double\<close> is a \<^typ>\<open>real\<close>: \<^verbatim>\<open>exp\<close>, \<^verbatim>\<open>log\<close> and \<^verbatim>\<open>pow\<close> are the
    real exponential, logarithm and power. Rounding, overflow to infinity, underflow to
    zero and NaN are not represented; the embedding agrees with the ideal value of the
    C expression where that expression is defined (positive argument of \<^verbatim>\<open>log\<close>,
    positive base of \<^verbatim>\<open>pow\<close>) and nothing underflows or overflows. At a zero or
    negative argument the total functions of HOL have values of their own (\<open>ln 0 = 0\<close>,
    \<open>0 powr y = 0\<close>) where the C functions give an infinity or NaN; a statement about
    the value of a logarithm or about the warnings therefore carries hypotheses that
    keep the arguments inside that range.
  \<^item> An \<^verbatim>\<open>arma::vec\<close> is a list, an \<^verbatim>\<open>arma::mat\<close> a record of its two dimensions
    and its entries. Armadillo is taken in its default build, where element access,
    \<^verbatim>\<open>subvec\<close>, \<^verbatim>\<open>max\<close>/\<^verbatim>\<open>min\<close> and element-wise operations check their operands and
    throw: \<^verbatim>\<open>std::out_of_range\<close> for an index, \<^verbatim>\<open>std::logic_error\<close> for a size
    mismatch or an empty operand. Every throw is a value \<open>Inl e\<close>.
  \<^item> \<^verbatim>\<open>lgamma\<close> (libm) and \<^verbatim>\<open>gsl_integration_qags\<close> (GSL) are external: they are the
    two fields of a record the functions take as their first argument. The quadrature
    routine is taken to be a function of the arguments of the call (it initialises the
    workspace itself), to evaluate the integrand at least once, and to return, reporting
    failure through its status (an installed GSL error handler that aborts the process
    instead is outside the embedding).
  \<^item> The variables of the anonymous namespace are a record that every function takes
    and returns; text written to \<^verbatim>\<open>Rcpp::Rcout\<close> is a list of diagnostics.
\<close>

subsection \<open>Errors, vectors and matrices\<close>

datatype error = logic_error | out_of_range | null_pointer

type_synonym vec = "real list"

type_synonym evec = "error + real list"

record mat =
  n_rows :: nat
  n_cols :: nat
  elem :: "nat \<Rightarrow> nat \<Rightarrow> real"

definition pow :: "real \<Rightarrow> real \<Rightarrow> real" where
  "pow x y = x powr y"

text \<open>\<^verbatim>\<open>v(i)\<close>: bounds-checked element access.\<close>

definition vec_at :: "vec \<Rightarrow> nat \<Rightarrow> error + real" where
  "vec_at v i = (if i < length v then Inr (v ! i) else Inl out_of_range)"

text \<open>\<^verbatim>\<open>v.max()\<close> and \<^verbatim>\<open>v.min()\<close>: an empty vector has no extremum.\<close>

fun vec_max :: "vec \<Rightarrow> error + real" where
  "vec_max [] = Inl logic_error"
| "vec_max (x # xs) = Inr (fold max xs x)"

fun vec_min :: "vec \<Rightarrow> error + real" where
  "vec_min [] = Inl logic_error"
| "vec_min (x # xs) = Inr (fold min xs x)"

text \<open>\<^verbatim>\<open>v.subvec(in_row1, in_row2)\<close>, both indices inclusive.\<close>

definition subvec :: "vec \<Rightarrow> nat \<Rightarrow> nat \<Rightarrow> evec" where
  "subvec v in_row1 in_row2 =
     (if in_row2 < in_row1 \<or> length v \<le> in_row2 then Inl out_of_range
      else Inr (take (in_row2 - in_row1 + 1) (drop in_row1 v)))"

text \<open>Element-wise operations on operands that may already have thrown.\<close>

definition ew1 :: "(real \<Rightarrow> real) \<Rightarrow> evec \<Rightarrow> evec" where
  "ew1 f A = (case A of Inl e \<Rightarrow> Inl e | Inr a \<Rightarrow> Inr (map f a))"

definition ew2 :: "(real \<Rightarrow> real \<Rightarrow> real) \<Rightarrow> evec \<Rightarrow> evec \<Rightarrow> evec" where
  "ew2 f A B =
     (case A of Inl e \<Rightarrow> Inl e
      | Inr a \<Rightarrow>
          (case B of Inl e \<Rightarrow> Inl e
           | Inr b \<Rightarrow>
               if length a = length b then Inr (map2 f a b) else Inl logic_error))"

definition arma_plus :: "evec \<Rightarrow> evec \<Rightarrow> evec" where
  "arma_plus = ew2 (\<lambda>a b. a + b)"

definition arma_minus :: "evec \<Rightarrow> evec \<Rightarrow> evec" where
  "arma_minus = ew2 (\<lambda>a b. a - b)"

definition arma_schur :: "evec \<Rightarrow> evec \<Rightarrow> evec" where
  "arma_schur = ew2 (\<lambda>a b. a * b)"

definition arma_log :: "evec \<Rightarrow> evec" where
  "arma_log = ew1 ln"

definition arma_exp :: "evec \<Rightarrow> evec" where
  "arma_exp = ew1 exp"

definition scalar_times :: "real \<Rightarrow> evec \<Rightarrow> evec" where
  "scalar_times c = ew1 (\<lambda>a. c * a)"

definition scalar_plus :: "real \<Rightarrow> evec \<Rightarrow> evec" where
  "scalar_plus c = ew1 (\<lambda>a. c + a)"

definition scalar_minus :: "real \<Rightarrow> evec \<Rightarrow> evec" where
  "scalar_minus c = ew1 (\<lambda>a. c - a)"

definition minus_scalar :: "evec \<Rightarrow> real \<Rightarrow> evec" where
  "minus_scalar A c = ew1 (\<lambda>a. a - c) A"

definition plus_scalar :: "evec \<Rightarrow> real \<Rightarrow> evec" where
  "plus_scalar A c = ew1 (\<lambda>a. a + c) A"

text \<open>\<^verbatim>\<open>M * c\<close> and \<^verbatim>\<open>M * v\<close>.\<close>

definition mat_times_scalar :: "mat \<Rightarrow> real \<Rightarrow> mat" where
  "mat_times_scalar M c = M\<lparr>elem := (\<lambda>i j. elem M i j * c)\<rparr>"

definition mat_times_vec :: "mat \<Rightarrow> vec \<Rightarrow> evec" where
  "mat_times_vec M v =
     (if n_cols M = length v
      then Inr (map (\<lambda>i. sum_list (map (\<lambda>j. elem M i j * (v ! j)) [0..<n_cols M]))
                  [0..<n_rows M])
      else Inl logic_error)"

subsection \<open>External numerical routines\<close>

text \<open>
  The arguments of one call
  \<^verbatim>\<open>gsl_integration_qags(f, a, b, epsabs, epsrel, limit, workspace, &result, &abserr)\<close>
  (the workspace is represented by the size it was allocated with) and what the call
  gives back.
\<close>

record qags_call =
  q_f :: "real \<Rightarrow> real"
  q_a :: real
  q_b :: real
  q_epsabs :: real
  q_epsrel :: real
  q_limit :: nat
  q_workspace :: nat

record qags_out =
  q_status :: int
  q_result :: real
  q_abserr :: real

record numlib =
  lgamma :: "real \<Rightarrow> real"
  gsl_integration_qags :: "qags_call \<Rightarrow> qags_out"

subsection \<open>The integration workaround: file-scope variables and the integrand\<close>

record globals =
  gpvX :: "vec option"
  gpvAlpha_i :: "vec option"
  gpvBeta_i :: "vec option"
  globI :: nat
  r_glob :: real
  b_glob :: real
  s_glob :: real

text \<open>\<^verbatim>\<open>(*p)(i)\<close>: the pointers are null until the first call sets them.\<close>

definition deref_at :: "vec option \<Rightarrow> nat \<Rightarrow> error + real" where
  "deref_at p i = (case p of None \<Rightarrow> Inl null_pointer | Some v \<Rightarrow> vec_at v i)"

definition integrationFunction :: "globals \<Rightarrow> real \<Rightarrow> error + real" where
  "integrationFunction g x =
     (case deref_at (gpvAlpha_i g) (globI g) of Inl e \<Rightarrow> Inl e
      | Inr alpha \<Rightarrow>
     (case deref_at (gpvX g) (globI g) of Inl e \<Rightarrow> Inl e
      | Inr xi \<Rightarrow>
     (case deref_at (gpvBeta_i g) (globI g) of Inl e \<Rightarrow> Inl e
      | Inr beta \<Rightarrow>
          Inr (pow (x + alpha) (- (r_glob g + xi))
               * pow (beta + exp (b_glob g * x) - 1) (- (s_glob g + 1))
               * exp (b_glob g * x)))))"

text \<open>
  The call of line 71. Whether the integrand throws depends on the file-scope variables
  only, not on the abscissa, so it is probed at the lower limit; once the probe is
  through, the integrand is a total function. The sixth argument of the call,
  \<^verbatim>\<open>limit\<close>, is the literal 0; 1000 is the size the workspace was allocated with on
  line 64.
\<close>

definition qags_request :: "globals \<Rightarrow> real \<Rightarrow> real \<Rightarrow> qags_call" where
  "qags_request g a b =
     \<lparr>q_f = (\<lambda>y. case integrationFunction g y of Inl _ \<Rightarrow> 0 | Inr v \<Rightarrow> v),
      q_a = a, q_b = b, q_epsabs = 1 / 10 ^ 8, q_epsrel = 1 / 10 ^ 8,
      q_limit = 0, q_workspace = 1000\<rparr>"

definition call_qags :: "numlib \<Rightarrow> globals \<Rightarrow> real \<Rightarrow> real \<Rightarrow> error + qags_out" where
  "call_qags L g a b =
     (case integrationFunction g a of Inl e \<Rightarrow> Inl e
      | Inr _ \<Rightarrow> Inr (gsl_integration_qags L (qags_request g a b)))"

text \<open>The body of the loop of lines 70 to 73: the status of the call is dropped.\<close>

definition integrate_customer :: "numlib \<Rightarrow> globals \<Rightarrow> vec \<Rightarrow> vec \<Rightarrow> error + real" where
  "integrate_customer L g vT_x vT_cal =
     (case vec_at vT_x (globI g) of Inl e \<Rightarrow> Inl e
      | Inr a \<Rightarrow>
     (case vec_at vT_cal (globI g) of Inl e \<Rightarrow> Inl e
      | Inr b \<Rightarrow>
     (case call_qags L g a b of Inl e \<Rightarrow> Inl e
      | Inr out \<Rightarrow> Inr (q_result out))))"

function integration_loop ::
  "numlib \<Rightarrow> nat \<Rightarrow> vec \<Rightarrow> vec \<Rightarrow> globals \<Rightarrow> vec \<Rightarrow> globals \<times> evec" where
  "integration_loop L n vT_x vT_cal g vIntegrals =
     (if globI g < n then
        (case integrate_customer L g vT_x vT_cal of
           Inl e \<Rightarrow> (g, Inl e)
         | Inr res \<Rightarrow>
             integration_loop L n vT_x vT_cal (g\<lparr>globI := globI g + 1\<rparr>)
               (vIntegrals[globI g := res]))
      else (g, Inr vIntegrals))"
  by pat_completeness auto
termination
  by (relation "measure (\<lambda>(L, n, vT_x, vT_cal, g, vIntegrals). n - globI g)") auto

subsection \<open>The pre-integration diagnostic\<close>

datatype diagnostic = LowerBoundaryZero | UpperBoundary real

record 'a run =
  globals_after :: globals
  printed :: "diagnostic list"
  returned :: "error + 'a"

text \<open>Lines 49 and 50: \<open>below\<close> and \<open>above\<close>.\<close>

definition boundaries ::
  "real \<Rightarrow> real \<Rightarrow> real \<Rightarrow> vec \<Rightarrow> vec \<Rightarrow> vec \<Rightarrow> vec \<Rightarrow> error + real \<times> real" where
  "boundaries r b s vAlpha_i vBeta_i vX vT_x =
     (case vec_max vT_x of Inl e \<Rightarrow> Inl e | Inr tx_max \<Rightarrow>
     (case vec_min vT_x of Inl e \<Rightarrow> Inl e | Inr tx_min \<Rightarrow>
     (case vec_max vAlpha_i of Inl e \<Rightarrow> Inl e | Inr alpha_max \<Rightarrow>
     (case vec_min vAlpha_i of Inl e \<Rightarrow> Inl e | Inr alpha_min \<Rightarrow>
     (case vec_max vX of Inl e \<Rightarrow> Inl e | Inr x_max \<Rightarrow>
     (case vec_max vBeta_i of Inl e \<Rightarrow> Inl e | Inr beta_max \<Rightarrow>
     (case vec_min vBeta_i of Inl e \<Rightarrow> Inl e | Inr beta_min \<Rightarrow>
        Inr (pow (tx_max + alpha_max) (- (r + x_max))
               * pow (beta_max + exp (b * tx_max) - 1) (- (s + 1))
               * exp (b * tx_min),
             pow (tx_min + alpha_min) (- (r + x_max))
               * pow (beta_min + exp (b * tx_min) - 1) (- (s + 1))
               * exp (b * tx_max)))))))))"

text \<open>Lines 54 to 58.\<close>

definition divergence_warnings :: "real \<Rightarrow> real \<Rightarrow> diagnostic list" where
  "divergence_warnings below_val above_val =
     (if below_val = 0 then [LowerBoundaryZero] else [])
     @ (if above_val > pow 10 200 then [UpperBoundary above_val] else [])"

subsection \<open>The per-customer log-likelihood\<close>

text \<open>Lines 75 to 94, from the integrals on.\<close>

definition vL_gamma :: "numlib \<Rightarrow> real \<Rightarrow> vec \<Rightarrow> vec" where
  "vL_gamma L r vX =
     (let r_lgamma = lgamma L r
      in map (\<lambda>i. lgamma L (r + vX ! i) - r_lgamma) [0..<length vX])"

definition vL1 :: "numlib \<Rightarrow> real \<Rightarrow> real \<Rightarrow> real \<Rightarrow> vec \<Rightarrow> vec \<Rightarrow> vec \<Rightarrow> vec \<Rightarrow> evec" where
  "vL1 L r b s vAlpha_i vBeta_i vX vT_cal =
     arma_plus (Inr (vL_gamma L r vX))
       (arma_plus
         (arma_plus
           (scalar_times r
             (arma_minus (arma_log (Inr vAlpha_i))
                         (arma_log (arma_plus (Inr vAlpha_i) (Inr vT_cal)))))
           (arma_schur (Inr vX)
             (scalar_minus 0 (arma_log (arma_plus (Inr vAlpha_i) (Inr vT_cal))))))
         (scalar_times s
           (arma_minus (arma_log (Inr vBeta_i))
                       (arma_log (arma_plus (minus_scalar (Inr vBeta_i) 1)
                                            (arma_exp (scalar_times b (Inr vT_cal))))))))"

definition vL2 :: "numlib \<Rightarrow> real \<Rightarrow> real \<Rightarrow> real \<Rightarrow> vec \<Rightarrow> vec \<Rightarrow> vec \<Rightarrow> vec \<Rightarrow> evec" where
  "vL2 L r b s vAlpha_i vBeta_i vX vIntegrals =
     arma_plus (Inr (vL_gamma L r vX))
       (arma_plus
         (arma_plus
           (plus_scalar
             (scalar_plus (ln b) (scalar_times r (arma_log (Inr vAlpha_i))))
             (ln s))
           (scalar_times s (arma_log (Inr vBeta_i))))
         (arma_log (Inr vIntegrals)))"

definition vLL :: "numlib \<Rightarrow> real \<Rightarrow> real \<Rightarrow> real \<Rightarrow> vec \<Rightarrow> vec \<Rightarrow> vec \<Rightarrow> vec \<Rightarrow> vec \<Rightarrow> evec" where
  "vLL L r b s vAlpha_i vBeta_i vX vT_cal vIntegrals =
     (case vL1 L r b s vAlpha_i vBeta_i vX vT_cal of Inl e \<Rightarrow> Inl e
      | Inr l1 \<Rightarrow>
     (case vL2 L r b s vAlpha_i vBeta_i vX vIntegrals of Inl e \<Rightarrow> Inl e
      | Inr l2 \<Rightarrow> arma_log (arma_plus (arma_exp (Inr l1)) (arma_exp (Inr l2)))))"

definition ggomnbd_LL_ind ::
  "numlib \<Rightarrow> globals \<Rightarrow> real \<Rightarrow> real \<Rightarrow> real \<Rightarrow> vec \<Rightarrow> vec \<Rightarrow> vec \<Rightarrow> vec \<Rightarrow> vec \<Rightarrow> vec run" where
  "ggomnbd_LL_ind L g0 r b s vAlpha_i vBeta_i vX vT_x vT_cal =
     (let n = length vX;
          g1 = g0\<lparr>gpvX := Some vX, gpvAlpha_i := Some vAlpha_i, gpvBeta_i := Some vBeta_i,
                  r_glob := r, b_glob := b, s_glob := s\<rparr>
      in case boundaries r b s vAlpha_i vBeta_i vX vT_x of
           Inl e \<Rightarrow> \<lparr>globals_after = g1, printed = [], returned = Inl e\<rparr>
         | Inr (below_val, above_val) \<Rightarrow>
             (case integration_loop L n vT_x vT_cal (g1\<lparr>globI := 0\<rparr>) (replicate n 0) of
                (g2, Inl e) \<Rightarrow>
                  \<lparr>globals_after = g2, printed = divergence_warnings below_val above_val,
                   returned = Inl e\<rparr>
              | (g2, Inr vIntegrals) \<Rightarrow>
                  \<lparr>globals_after = g2, printed = divergence_warnings below_val above_val,
                   returned = vLL L r b s vAlpha_i vBeta_i vX vT_cal vIntegrals\<rparr>))"

subsection \<open>Decoding the parameter vector\<close>

record decoded =
  d_r :: real
  d_alpha_0 :: real
  d_b :: real
  d_s :: real
  d_beta_0 :: real
  d_vAlpha_i :: vec
  d_vBeta_i :: vec

text \<open>Lines 106 to 120 (\<open>n\<close> is the number of customers, \<^verbatim>\<open>vX.n_elem\<close>).\<close>

definition nocov_parameters :: "vec \<Rightarrow> nat \<Rightarrow> error + decoded" where
  "nocov_parameters vLogparams n =
     (case vec_at vLogparams 0 of Inl e \<Rightarrow> Inl e | Inr p0 \<Rightarrow>
     (case vec_at vLogparams 1 of Inl e \<Rightarrow> Inl e | Inr p1 \<Rightarrow>
     (case vec_at vLogparams 2 of Inl e \<Rightarrow> Inl e | Inr p2 \<Rightarrow>
     (case vec_at vLogparams 3 of Inl e \<Rightarrow> Inl e | Inr p3 \<Rightarrow>
     (case vec_at vLogparams 4 of Inl e \<Rightarrow> Inl e | Inr p4 \<Rightarrow>
        Inr \<lparr>d_r = exp p0, d_alpha_0 = exp p1, d_b = exp p2, d_s = exp p3,
             d_beta_0 = exp p4,
             d_vAlpha_i = replicate n (exp p1),
             d_vBeta_i = replicate n (exp p4)\<rparr>)))))"

text \<open>Lines 237 to 259.\<close>

definition staticcov_parameters :: "vec \<Rightarrow> mat \<Rightarrow> mat \<Rightarrow> error + decoded" where
  "staticcov_parameters vParams mCov_life mCov_trans =
     (case vec_at vParams 0 of Inl e \<Rightarrow> Inl e | Inr p0 \<Rightarrow>
     (case vec_at vParams 1 of Inl e \<Rightarrow> Inl e | Inr p1 \<Rightarrow>
     (case vec_at vParams 2 of Inl e \<Rightarrow> Inl e | Inr p2 \<Rightarrow>
     (case vec_at vParams 3 of Inl e \<Rightarrow> Inl e | Inr p3 \<Rightarrow>
     (case vec_at vParams 4 of Inl e \<Rightarrow> Inl e | Inr p4 \<Rightarrow>
     (let no_model_params = 5;
          num_cov_life = n_cols mCov_life;
          num_cov_trans = n_cols mCov_trans
      in
     (case subvec vParams no_model_params (no_model_params + num_cov_life - 1) of
        Inl e \<Rightarrow> Inl e | Inr vLife_params \<Rightarrow>
     (case subvec vParams (no_model_params + num_cov_life)
             (no_model_params + num_cov_life + num_cov_trans - 1) of
        Inl e \<Rightarrow> Inl e | Inr vTrans_params \<Rightarrow>
     (case scalar_times (exp p1)
             (arma_exp (mat_times_vec (mat_times_scalar mCov_trans (- 1)) vTrans_params)) of
        Inl e \<Rightarrow> Inl e | Inr vAlpha_i \<Rightarrow>
     (case scalar_times (exp p4)
             (arma_exp (mat_times_vec (mat_times_scalar mCov_life (- 1)) vLife_params)) of
        Inl e \<Rightarrow> Inl e | Inr vBeta_i \<Rightarrow>
        Inr \<lparr>d_r = exp p0, d_alpha_0 = exp p1, d_b = exp p2, d_s = exp p3,
             d_beta_0 = exp p4, d_vAlpha_i = vAlpha_i, d_vBeta_i = vBeta_i\<rparr>))))))))))"

subsection \<open>The exported entry points\<close>

definition ggomnbd_nocov_LL_ind ::
  "numlib \<Rightarrow> globals \<Rightarrow> vec \<Rightarrow> vec \<Rightarrow> vec \<Rightarrow> vec \<Rightarrow> vec run" where
  "ggomnbd_nocov_LL_ind L g vLogparams vX vT_x vT_cal =
     (case nocov_parameters vLogparams (length vX) of
        Inl e \<Rightarrow> \<lparr>globals_after = g, printed = [], returned = Inl e\<rparr>
      | Inr P \<Rightarrow>
          ggomnbd_LL_ind L g (d_r P) (d_b P) (d_s P) (d_vAlpha_i P) (d_vBeta_i P)
            vX vT_x vT_cal)"

definition ggomnbd_nocov_LL_sum ::
  "numlib \<Rightarrow> globals \<Rightarrow> vec \<Rightarrow> vec \<Rightarrow> vec \<Rightarrow> vec \<Rightarrow> real run" where
  "ggomnbd_nocov_LL_sum L g vLogparams vX vT_x vT_cal =
     (let ind = ggomnbd_nocov_LL_ind L g vLogparams vX vT_x vT_cal
      in \<lparr>globals_after = globals_after ind, printed = printed ind,
          returned = (case returned ind of Inl e \<Rightarrow> Inl e
                      | Inr ll \<Rightarrow> Inr (- sum_list ll))\<rparr>)"

definition ggomnbd_staticcov_LL_ind ::
  "numlib \<Rightarrow> globals \<Rightarrow> vec \<Rightarrow> vec \<Rightarrow> vec \<Rightarrow> vec \<Rightarrow> mat \<Rightarrow> mat \<Rightarrow> vec run" where
  "ggomnbd_staticcov_LL_ind L g vParams vX vT_x vT_cal mCov_life mCov_trans =
     (case staticcov_parameters vParams mCov_life mCov_trans of
        Inl e \<Rightarrow> \<lparr>globals_after = g, printed = [], returned = Inl e\<rparr>
      | Inr P \<Rightarrow>
          ggomnbd_LL_ind L g (d_r P) (d_b P) (d_s P) (d_vAlpha_i P) (d_vBeta_i P)
            vX vT_x vT_cal)"

definition ggomnbd_staticcov_LL_sum ::
  "numlib \<Rightarrow> globals \<Rightarrow> vec \<Rightarrow> vec \<Rightarrow> vec \<Rightarrow> vec \<Rightarrow> mat \<Rightarrow> mat \<Rightarrow> real run" where
  "ggomnbd_staticcov_LL_sum L g vParams vX vT_x vT_cal mCov_life mCov_trans =
     (let ind = ggomnbd_staticcov_LL_ind L g vParams vX vT_x vT_cal mCov_life mCov_trans
      in \<lparr>globals_after = globals_after ind, printed = printed ind,
          returned = (case returned ind of Inl e \<Rightarrow> Inl e
                      | Inr ll \<Rightarrow> Inr (- sum_list ll))\<rparr>)"

subsection \<open>Notions used to state the properties\<close>

text \<open>The initial values of the file-scope variables (lines 11 to 14).\<close>

definition initial_globals :: globals where
  "initial_globals =
     \<lparr>gpvX = None, gpvAlpha_i = None, gpvBeta_i = None, globI = 0,
      r_glob = 0, b_glob = 0, s_glob = 0\<rparr>"

text \<open>
  The file-scope variables as lines 39 to 46 leave them, with the loop counter at \<open>i\<close>.
\<close>

definition workaround :: "real \<Rightarrow> real \<Rightarrow> real \<Rightarrow> vec \<Rightarrow> vec \<Rightarrow> vec \<Rightarrow> nat \<Rightarrow> globals" where
  "workaround r b s vAlpha_i vBeta_i vX i =
     \<lparr>gpvX = Some vX, gpvAlpha_i = Some vAlpha_i, gpvBeta_i = Some vBeta_i, globI = i,
      r_glob = r, b_glob = b, s_glob = s\<rparr>"

text \<open>The vector \<^verbatim>\<open>vIntegrals\<close> after the loop of lines 70 to 73.\<close>

definition integrals ::
  "numlib \<Rightarrow> real \<Rightarrow> real \<Rightarrow> real \<Rightarrow> vec \<Rightarrow> vec \<Rightarrow> vec \<Rightarrow> vec \<Rightarrow> vec \<Rightarrow> evec" where
  "integrals L r b s vAlpha_i vBeta_i vX vT_x vT_cal =
     snd (integration_loop L (length vX) vT_x vT_cal
            (workaround r b s vAlpha_i vBeta_i vX 0) (replicate (length vX) 0))"

text \<open>
  The integrand as the specification writes it, for one customer:
  \<open>f(y) = (y + alpha)^-(r + x) * (beta + exp(b*y) - 1)^-(s + 1) * exp(b*y)\<close>.
\<close>

definition kernel :: "real \<Rightarrow> real \<Rightarrow> real \<Rightarrow> real \<Rightarrow> real \<Rightarrow> real \<Rightarrow> real \<Rightarrow> real" where
  "kernel r b s alpha beta x y =
     pow (y + alpha) (- (r + x)) * pow (beta + exp (b * y) - 1) (- (s + 1)) * exp (b * y)"

text \<open>
  Stand-ins for the two external routines, for the worked examples only: a one-panel
  midpoint rule that reports a status of its own choosing, and a constant for
  \<^verbatim>\<open>lgamma\<close>.
\<close>

definition midpoint_lib :: "int \<Rightarrow> numlib" where
  "midpoint_lib st =
     \<lparr>lgamma = (\<lambda>z. 0),
      gsl_integration_qags =
        (\<lambda>c. \<lparr>q_status = st,
                q_result = (q_b c - q_a c) * q_f c ((q_a c + q_b c) / 2),
                q_abserr = 0\<rparr>)\<rparr>"


section \<open>Properties\<close>

subsection \<open>Auxiliary facts\<close>

lemma ew1_simps [simp]:
  "ew1 f (Inl e) = Inl e"
  "ew1 f (Inr a) = Inr (map f a)"
  by (simp_all add: ew1_def)

lemma ew2_simps [simp]:
  "ew2 f (Inl e) B = Inl e"
  "ew2 f (Inr a) (Inl e) = Inl e"
  "ew2 f (Inr a) (Inr b) = (if length a = length b then Inr (map2 f a b) else Inl logic_error)"
  by (simp_all add: ew2_def)

lemmas arma_defs = arma_plus_def arma_minus_def arma_schur_def arma_log_def arma_exp_def
  scalar_times_def scalar_plus_def scalar_minus_def minus_scalar_def plus_scalar_def

declare integration_loop.simps [simp del]

text \<open>
  The loop invariant: on normal exit every entry from the starting index on holds what
  the loop body computed for that index, and the entries before are untouched.
\<close>

lemma integration_loop_Inr:
  "integration_loop L n tx tcal g acc = (g', Inr v) \<Longrightarrow> length acc = n \<Longrightarrow>
     length v = n
     \<and> (\<forall>i. globI g \<le> i \<and> i < n \<longrightarrow> integrate_customer L (g\<lparr>globI := i\<rparr>) tx tcal = Inr (v ! i))
     \<and> (\<forall>i. i < globI g \<and> i < n \<longrightarrow> v ! i = acc ! i)"
proof (induction L n tx tcal g acc arbitrary: g' v rule: integration_loop.induct)
  case (1 L n vT_x vT_cal g vIntegrals)
  show ?case
  proof (cases "globI g < n")
    case False
    with "1.prems" show ?thesis
      by (auto simp: integration_loop.simps [of L n vT_x vT_cal g vIntegrals])
  next
    case True
    with "1.prems" obtain res where
      res: "integrate_customer L g vT_x vT_cal = Inr res" and
      rec: "integration_loop L n vT_x vT_cal (g\<lparr>globI := globI g + 1\<rparr>)
              (vIntegrals[globI g := res]) = (g', Inr v)"
      by (cases "integrate_customer L g vT_x vT_cal")
         (auto simp: integration_loop.simps [of L n vT_x vT_cal g vIntegrals])
    have len: "length (vIntegrals[globI g := res]) = n"
      using "1.prems" by simp
    note IH = "1.IH" [OF True res rec len]
    have a: "length v = n" using IH by simp
    have b: "integrate_customer L (g\<lparr>globI := i\<rparr>) vT_x vT_cal = Inr (v ! i)"
      if "globI g \<le> i" "i < n" for i
    proof (cases "i = globI g")
      case True
      then have "v ! i = (vIntegrals[globI g := res]) ! i"
        using IH that by simp
      also have "\<dots> = res"
        using True that "1.prems" by simp
      finally show ?thesis using res True by simp
    next
      case False
      then show ?thesis using IH that by simp
    qed
    have c: "v ! i = vIntegrals ! i" if "i < globI g" "i < n" for i
    proof -
      have "v ! i = (vIntegrals[globI g := res]) ! i"
        using IH that by simp
      then show ?thesis using that by simp
    qed
    from a b c show ?thesis by blast
  qed
qed

lemma globI_workaround: "globI (workaround r b s vAlpha_i vBeta_i vX i) = i"
  by (simp add: workaround_def)

lemma workaround_start:
  "g0\<lparr>gpvX := Some vX, gpvAlpha_i := Some vAlpha_i, gpvBeta_i := Some vBeta_i,
      r_glob := r, b_glob := b, s_glob := s, globI := 0\<rparr>
   = workaround r b s vAlpha_i vBeta_i vX 0"
  by (simp add: workaround_def)

lemma workaround_globI:
  "(workaround r b s vAlpha_i vBeta_i vX i)\<lparr>globI := j\<rparr> = workaround r b s vAlpha_i vBeta_i vX j"
  by (simp add: workaround_def)

text \<open>The integrand of the source is the integrand of the specification.\<close>

lemma integrationFunction_workaround:
  "integrationFunction (workaround r b s vAlpha_i vBeta_i vX i) y =
     (if i < length vAlpha_i \<and> i < length vX \<and> i < length vBeta_i
      then Inr (kernel r b s (vAlpha_i ! i) (vBeta_i ! i) (vX ! i) y)
      else Inl out_of_range)"
  by (simp add: integrationFunction_def workaround_def deref_at_def vec_at_def kernel_def)

lemma integrate_customer_workaround:
  "integrate_customer L (workaround r b s vAlpha_i vBeta_i vX i) vT_x vT_cal =
     (if i < length vT_x \<and> i < length vT_cal \<and> i < length vAlpha_i \<and> i < length vX
         \<and> i < length vBeta_i
      then Inr (q_result (gsl_integration_qags L
                 \<lparr>q_f = kernel r b s (vAlpha_i ! i) (vBeta_i ! i) (vX ! i),
                  q_a = vT_x ! i, q_b = vT_cal ! i,
                  q_epsabs = 1 / 10 ^ 8, q_epsrel = 1 / 10 ^ 8,
                  q_limit = 0, q_workspace = 1000\<rparr>))
      else Inl out_of_range)"
  by (simp add: integrate_customer_def call_qags_def qags_request_def
      integrationFunction_workaround vec_at_def globI_workaround)

lemma integrals_Inr:
  assumes "integrals L r b s vAlpha_i vBeta_i vX vT_x vT_cal = Inr vIntegrals"
  shows "length vIntegrals = length vX
         \<and> (\<forall>i<length vX. i < length vT_x \<and> i < length vT_cal \<and> i < length vAlpha_i
               \<and> i < length vBeta_i
               \<and> vIntegrals ! i =
                   q_result (gsl_integration_qags L
                     \<lparr>q_f = kernel r b s (vAlpha_i ! i) (vBeta_i ! i) (vX ! i),
                      q_a = vT_x ! i, q_b = vT_cal ! i,
                      q_epsabs = 1 / 10 ^ 8, q_epsrel = 1 / 10 ^ 8,
                      q_limit = 0, q_workspace = 1000\<rparr>))"
proof -
  obtain g' where loop: "integration_loop L (length vX) vT_x vT_cal
      (workaround r b s vAlpha_i vBeta_i vX 0) (replicate (length vX) 0) = (g', Inr vIntegrals)"
    using assms by (simp add: integrals_def) (metis prod.collapse)
  have len: "length (replicate (length vX) (0::real)) = length vX" by simp
  note inv = integration_loop_Inr [OF loop len]
  have a: "length vIntegrals = length vX" using inv by simp
  have b: "integrate_customer L (workaround r b s vAlpha_i vBeta_i vX i) vT_x vT_cal
             = Inr (vIntegrals ! i)" if "i < length vX" for i
    using inv that by (simp add: workaround_globI globI_workaround)
  show ?thesis
  proof (intro conjI allI impI)
    show "length vIntegrals = length vX" by (rule a)
  next
    fix i assume i: "i < length vX"
    from b [OF i] show "i < length vT_x" "i < length vT_cal" "i < length vAlpha_i"
      "i < length vBeta_i"
      by (simp_all add: integrate_customer_workaround split: if_splits)
    from b [OF i] show "vIntegrals ! i =
                   q_result (gsl_integration_qags L
                     \<lparr>q_f = kernel r b s (vAlpha_i ! i) (vBeta_i ! i) (vX ! i),
                      q_a = vT_x ! i, q_b = vT_cal ! i,
                      q_epsabs = 1 / 10 ^ 8, q_epsrel = 1 / 10 ^ 8,
                      q_limit = 0, q_workspace = 1000\<rparr>)"
      by (simp add: integrate_customer_workaround split: if_splits)
  qed
qed

lemma vL1_Inr:
  assumes "vL1 L r b s vAlpha_i vBeta_i vX vT_cal = Inr l1"
  shows "length vAlpha_i = length vX \<and> length vBeta_i = length vX
         \<and> length vT_cal = length vX \<and> length l1 = length vX
         \<and> (\<forall>i<length vX. l1 ! i =
               (lgamma L (r + vX ! i) - lgamma L r)
               + (r * (ln (vAlpha_i ! i) - ln (vAlpha_i ! i + vT_cal ! i))
                  + vX ! i * (0 - ln (vAlpha_i ! i + vT_cal ! i))
                  + s * (ln (vBeta_i ! i) - ln (vBeta_i ! i - 1 + exp (b * vT_cal ! i)))))"
  using assms
  by (auto simp: vL1_def arma_defs vL_gamma_def split: if_splits)

lemma vL2_Inr:
  assumes "vL2 L r b s vAlpha_i vBeta_i vX vIntegrals = Inr l2"
  shows "length vAlpha_i = length vX \<and> length vBeta_i = length vX
         \<and> length vIntegrals = length vX \<and> length l2 = length vX
         \<and> (\<forall>i<length vX. l2 ! i =
               (lgamma L (r + vX ! i) - lgamma L r)
               + (ln b + r * ln (vAlpha_i ! i) + ln s + s * ln (vBeta_i ! i)
                  + ln (vIntegrals ! i)))"
  using assms
  by (auto simp: vL2_def arma_defs vL_gamma_def split: if_splits)

lemma vLL_Inr:
  assumes "vLL L r b s vAlpha_i vBeta_i vX vT_cal vIntegrals = Inr ll"
  shows "length vAlpha_i = length vX \<and> length vBeta_i = length vX
         \<and> length vT_cal = length vX \<and> length vIntegrals = length vX
         \<and> length ll = length vX
         \<and> (\<forall>i<length vX. ll ! i =
               ln (exp ((lgamma L (r + vX ! i) - lgamma L r)
                        + (r * (ln (vAlpha_i ! i) - ln (vAlpha_i ! i + vT_cal ! i))
                           + vX ! i * (0 - ln (vAlpha_i ! i + vT_cal ! i))
                           + s * (ln (vBeta_i ! i)
                                  - ln (vBeta_i ! i - 1 + exp (b * vT_cal ! i)))))
                   + exp ((lgamma L (r + vX ! i) - lgamma L r)
                          + (ln b + r * ln (vAlpha_i ! i) + ln s + s * ln (vBeta_i ! i)
                             + ln (vIntegrals ! i)))))"
proof -
  from assms obtain l1 l2 where
    l1: "vL1 L r b s vAlpha_i vBeta_i vX vT_cal = Inr l1" and
    l2: "vL2 L r b s vAlpha_i vBeta_i vX vIntegrals = Inr l2" and
    ll: "arma_log (arma_plus (arma_exp (Inr l1)) (arma_exp (Inr l2))) = Inr ll"
    by (auto simp: vLL_def split: sum.splits)
  note A = vL1_Inr [OF l1] and B = vL2_Inr [OF l2]
  from ll A B have C: "ll = map ln (map2 (\<lambda>a b. a + b) (map exp l1) (map exp l2))"
    by (simp add: arma_defs)
  have "length ll = length vX" using C A B by simp
  moreover have "ll ! i = ln (exp (l1 ! i) + exp (l2 ! i))" if "i < length vX" for i
    using C A B that by simp
  ultimately show ?thesis using A B by simp
qed

lemma vLL_Inl: "vLL L r b s vAlpha_i vBeta_i vX vT_cal vIntegrals = Inl e \<Longrightarrow> e = logic_error"
  by (auto simp: vLL_def vL1_def vL2_def arma_defs split: sum.splits if_splits)

lemma boundaries_empty_tx: "boundaries r b s vAlpha_i vBeta_i vX [] = Inl logic_error"
  by (simp add: boundaries_def)

lemma boundaries_Inr:
  "boundaries r b s vAlpha_i vBeta_i vX vT_x = Inr p \<Longrightarrow>
     vT_x \<noteq> [] \<and> vAlpha_i \<noteq> [] \<and> vX \<noteq> [] \<and> vBeta_i \<noteq> []"
  by (cases vT_x; cases vAlpha_i; cases vX; cases vBeta_i) (simp_all add: boundaries_def)

lemma boundaries_Inl:
  "boundaries r b s vAlpha_i vBeta_i vX vT_x = Inl e \<Longrightarrow> e = logic_error"
  by (cases vT_x; cases vAlpha_i; cases vX; cases vBeta_i) (simp_all add: boundaries_def)

text \<open>What a call of \<open>ggomnbd_LL_ind\<close> returns and what it prints.\<close>

lemma returned_LL_ind:
  "returned (ggomnbd_LL_ind L g r b s vAlpha_i vBeta_i vX vT_x vT_cal) =
     (case boundaries r b s vAlpha_i vBeta_i vX vT_x of
        Inl e \<Rightarrow> Inl e
      | Inr p \<Rightarrow>
          (case integrals L r b s vAlpha_i vBeta_i vX vT_x vT_cal of
             Inl e \<Rightarrow> Inl e
           | Inr vIntegrals \<Rightarrow> vLL L r b s vAlpha_i vBeta_i vX vT_cal vIntegrals))"
  by (auto simp: ggomnbd_LL_ind_def Let_def workaround_start integrals_def
      split: sum.splits prod.splits)

lemma printed_LL_ind:
  "printed (ggomnbd_LL_ind L g r b s vAlpha_i vBeta_i vX vT_x vT_cal) =
     (case boundaries r b s vAlpha_i vBeta_i vX vT_x of
        Inl e \<Rightarrow> []
      | Inr p \<Rightarrow> divergence_warnings (fst p) (snd p))"
  by (simp add: ggomnbd_LL_ind_def Let_def split: sum.splits prod.splits)

lemma LL_ind_empty_tx:
  "returned (ggomnbd_LL_ind L g r b s vAlpha_i vBeta_i vX [] vT_cal) = Inl logic_error"
  by (simp add: returned_LL_ind boundaries_empty_tx)

lemma nocov_parameters_isl:
  "isl (nocov_parameters p n) \<longleftrightarrow> length p < 5"
  by (auto simp: nocov_parameters_def vec_at_def split: sum.splits if_splits)

lemma nocov_parameters_short:
  "length p < 5 \<Longrightarrow> nocov_parameters p n = Inl out_of_range"
  by (auto simp: nocov_parameters_def vec_at_def split: sum.splits if_splits)

text \<open>When the loop, the integrals and the whole call return normally.\<close>

lemma integration_loop_total:
  "(\<forall>i. globI g \<le> i \<and> i < n \<longrightarrow> (\<exists>res. integrate_customer L (g\<lparr>globI := i\<rparr>) tx tcal = Inr res))
   \<Longrightarrow> \<exists>g' v. integration_loop L n tx tcal g acc = (g', Inr v)"
proof (induction L n tx tcal g acc rule: integration_loop.induct)
  case (1 L n vT_x vT_cal g vIntegrals)
  show ?case
  proof (cases "globI g < n")
    case False
    then show ?thesis
      by (simp add: integration_loop.simps [of L n vT_x vT_cal g vIntegrals])
  next
    case True
    with "1.prems" obtain res where res: "integrate_customer L g vT_x vT_cal = Inr res"
      by (metis globals.surjective globals.update_convs(4) order_refl old.unit.exhaust)
    have "\<forall>i. globI (g\<lparr>globI := globI g + 1\<rparr>) \<le> i \<and> i < n \<longrightarrow>
            (\<exists>res. integrate_customer L (g\<lparr>globI := globI g + 1\<rparr>\<lparr>globI := i\<rparr>) vT_x vT_cal = Inr res)"
      using "1.prems" by simp
    from "1.IH" [OF True res this] res True show ?thesis
      by (simp add: integration_loop.simps [of L n vT_x vT_cal g vIntegrals])
  qed
qed

lemma integrals_total:
  assumes "length vX \<le> length vT_x" "length vX \<le> length vT_cal"
    "length vX \<le> length vAlpha_i" "length vX \<le> length vBeta_i"
  shows "\<exists>v. integrals L r b s vAlpha_i vBeta_i vX vT_x vT_cal = Inr v"
proof -
  have "\<exists>g' v. integration_loop L (length vX) vT_x vT_cal
      (workaround r b s vAlpha_i vBeta_i vX 0) (replicate (length vX) 0) = (g', Inr v)"
    by (rule integration_loop_total)
       (use assms in \<open>simp add: workaround_globI integrate_customer_workaround\<close>)
  then show ?thesis by (auto simp: integrals_def)
qed

lemma vLL_total:
  assumes "length vAlpha_i = length vX" "length vBeta_i = length vX"
    "length vT_cal = length vX" "length vIntegrals = length vX"
  shows "\<exists>ll. vLL L r b s vAlpha_i vBeta_i vX vT_cal vIntegrals = Inr ll"
  using assms by (simp add: vLL_def vL1_def vL2_def arma_defs vL_gamma_def)

lemma boundaries_total:
  assumes "vT_x \<noteq> []" "vAlpha_i \<noteq> []" "vX \<noteq> []" "vBeta_i \<noteq> []"
  shows "\<exists>p. boundaries r b s vAlpha_i vBeta_i vX vT_x = Inr p"
  using assms
  by (cases vT_x; cases vAlpha_i; cases vX; cases vBeta_i) (simp_all add: boundaries_def)

lemma LL_ind_succeeds_iff:
  "(\<exists>ll. returned (ggomnbd_LL_ind L g r b s vAlpha_i vBeta_i vX vT_x vT_cal) = Inr ll) \<longleftrightarrow>
     vX \<noteq> [] \<and> length vAlpha_i = length vX \<and> length vBeta_i = length vX
     \<and> length vT_cal = length vX \<and> length vX \<le> length vT_x"
  (is "?lhs \<longleftrightarrow> ?rhs")
proof
  assume ?lhs
  then obtain ll where ll: "returned (ggomnbd_LL_ind L g r b s vAlpha_i vBeta_i vX vT_x vT_cal) = Inr ll"
    by blast
  then obtain p vIntegrals where
    p: "boundaries r b s vAlpha_i vBeta_i vX vT_x = Inr p" and
    v: "integrals L r b s vAlpha_i vBeta_i vX vT_x vT_cal = Inr vIntegrals" and
    l: "vLL L r b s vAlpha_i vBeta_i vX vT_cal vIntegrals = Inr ll"
    by (auto simp: returned_LL_ind split: sum.splits)
  have "length vX \<le> length vT_x"
  proof (rule ccontr)
    assume "\<not> length vX \<le> length vT_x"
    then have "length vT_x < length vX" by simp
    with integrals_Inr [OF v] show False by auto
  qed
  with boundaries_Inr [OF p] vLL_Inr [OF l] show ?rhs by simp
next
  assume r: ?rhs
  then have ne: "vT_x \<noteq> []" "vAlpha_i \<noteq> []" "vX \<noteq> []" "vBeta_i \<noteq> []"
    by auto
  obtain p where p: "boundaries r b s vAlpha_i vBeta_i vX vT_x = Inr p"
    using boundaries_total [OF ne] by blast
  from r obtain v where v: "integrals L r b s vAlpha_i vBeta_i vX vT_x vT_cal = Inr v"
    using integrals_total [of vX vT_x vT_cal vAlpha_i vBeta_i L r b s] by auto
  from r integrals_Inr [OF v] obtain ll where
    "vLL L r b s vAlpha_i vBeta_i vX vT_cal v = Inr ll"
    using vLL_total [of vAlpha_i vX vBeta_i vT_cal v L r b s] by auto
  with p v show ?lhs by (simp add: returned_LL_ind)
qed

lemma LL_ind_nth:
  assumes "returned (ggomnbd_LL_ind L g r b s vAlpha_i vBeta_i vX vT_x vT_cal) = Inr ll"
    and "i < length vX"
  shows "ll ! i =
     ln (exp ((lgamma L (r + vX ! i) - lgamma L r)
              + (r * (ln (vAlpha_i ! i) - ln (vAlpha_i ! i + vT_cal ! i))
                 + vX ! i * (0 - ln (vAlpha_i ! i + vT_cal ! i))
                 + s * (ln (vBeta_i ! i) - ln (vBeta_i ! i - 1 + exp (b * vT_cal ! i)))))
         + exp ((lgamma L (r + vX ! i) - lgamma L r)
                + (ln b + r * ln (vAlpha_i ! i) + ln s + s * ln (vBeta_i ! i)
                   + ln (q_result (gsl_integration_qags L
                           \<lparr>q_f = kernel r b s (vAlpha_i ! i) (vBeta_i ! i) (vX ! i),
                            q_a = vT_x ! i, q_b = vT_cal ! i,
                            q_epsabs = 1 / 10 ^ 8, q_epsrel = 1 / 10 ^ 8,
                            q_limit = 0, q_workspace = 1000\<rparr>)))))"
proof -
  from assms obtain p vIntegrals where
    v: "integrals L r b s vAlpha_i vBeta_i vX vT_x vT_cal = Inr vIntegrals" and
    l: "vLL L r b s vAlpha_i vBeta_i vX vT_cal vIntegrals = Inr ll"
    by (auto simp: returned_LL_ind split: sum.splits)
  from integrals_Inr [OF v] assms(2) have
    "vIntegrals ! i = q_result (gsl_integration_qags L
                           \<lparr>q_f = kernel r b s (vAlpha_i ! i) (vBeta_i ! i) (vX ! i),
                            q_a = vT_x ! i, q_b = vT_cal ! i,
                            q_epsabs = 1 / 10 ^ 8, q_epsrel = 1 / 10 ^ 8,
                            q_limit = 0, q_workspace = 1000\<rparr>)"
    by blast
  with vLL_Inr [OF l] assms(2) show ?thesis by simp
qed

lemma LL_ind_globals_irrelevant:
  "returned (ggomnbd_LL_ind L g r b s vAlpha_i vBeta_i vX vT_x vT_cal)
     = returned (ggomnbd_LL_ind L g' r b s vAlpha_i vBeta_i vX vT_x vT_cal)"
  "printed (ggomnbd_LL_ind L g r b s vAlpha_i vBeta_i vX vT_x vT_cal)
     = printed (ggomnbd_LL_ind L g' r b s vAlpha_i vBeta_i vX vT_x vT_cal)"
  by (simp_all add: returned_LL_ind printed_LL_ind)

text \<open>Only the result value of the quadrature routine and \<^verbatim>\<open>lgamma\<close> matter.\<close>

lemma integrate_customer_cong_lib:
  assumes "\<And>c. q_result (gsl_integration_qags L' c) = q_result (gsl_integration_qags L c)"
  shows "integrate_customer L' g tx tcal = integrate_customer L g tx tcal"
  by (simp add: integrate_customer_def call_qags_def assms split: sum.splits)

lemma integration_loop_cong_lib:
  "(\<forall>c. q_result (gsl_integration_qags L' c) = q_result (gsl_integration_qags L c)) \<Longrightarrow>
   integration_loop L' n tx tcal g acc = integration_loop L n tx tcal g acc"
proof (induction L n tx tcal g acc rule: integration_loop.induct)
  case (1 L n vT_x vT_cal g vIntegrals)
  have ic: "integrate_customer L' g vT_x vT_cal = integrate_customer L g vT_x vT_cal"
    using "1.prems" by (intro integrate_customer_cong_lib) simp
  show ?case
  proof (cases "globI g < n")
    case False
    then show ?thesis
      by (simp add: integration_loop.simps [of L n vT_x vT_cal g vIntegrals]
          integration_loop.simps [of L' n vT_x vT_cal g vIntegrals])
  next
    case True
    show ?thesis
    proof (cases "integrate_customer L g vT_x vT_cal")
      case (Inl e)
      with True ic show ?thesis
        by (simp add: integration_loop.simps [of L n vT_x vT_cal g vIntegrals]
            integration_loop.simps [of L' n vT_x vT_cal g vIntegrals])
    next
      case (Inr res)
      from "1.IH" [OF True Inr "1.prems"] True ic Inr show ?thesis
        by (simp add: integration_loop.simps [of L n vT_x vT_cal g vIntegrals]
            integration_loop.simps [of L' n vT_x vT_cal g vIntegrals])
    qed
  qed
qed

lemma vLL_cong_lib:
  assumes "lgamma L' = lgamma L"
  shows "vLL L' r b s vAlpha_i vBeta_i vX vT_cal vIntegrals
         = vLL L r b s vAlpha_i vBeta_i vX vT_cal vIntegrals"
proof -
  have g: "vL_gamma L' r vX = vL_gamma L r vX"
    by (simp add: vL_gamma_def assms)
  have "vL1 L' r b s vAlpha_i vBeta_i vX vT_cal = vL1 L r b s vAlpha_i vBeta_i vX vT_cal"
    and "vL2 L' r b s vAlpha_i vBeta_i vX vIntegrals = vL2 L r b s vAlpha_i vBeta_i vX vIntegrals"
    by (simp_all only: vL1_def vL2_def g)
  then show ?thesis by (simp only: vLL_def)
qed

text \<open>The golden scenario of the specification: one customer, no repeat purchase.\<close>

lemma golden_boundaries:
  "boundaries 1 (1 / 100) 1 [1] [1] [0] [0] = Inr (1, 1)"
  by (simp add: boundaries_def pow_def)

lemma golden_integrals:
  "integrals (midpoint_lib st) 1 (1 / 100) 1 [1] [1] [0] [0] [10]
     = Inr [10 * kernel 1 (1 / 100) 1 1 1 0 5]"
  by (simp add: integrals_def integration_loop.simps workaround_globI globI_workaround
      integrate_customer_workaround midpoint_lib_def)






text \<open>Decoding the parameter vector.\<close>

lemma subvec_Inr:
  "subvec v a b = Inr w \<longleftrightarrow> a \<le> b \<and> b < length v \<and> w = take (b - a + 1) (drop a v)"
  by (auto simp: subvec_def)

lemma subvec_Inl:
  "subvec v a b = Inl e \<longleftrightarrow> (b < a \<or> length v \<le> b) \<and> e = out_of_range"
  by (auto simp: subvec_def)

lemma cov_product:
  "length v = n_cols M \<Longrightarrow>
   scalar_times c (arma_exp (mat_times_vec (mat_times_scalar M (- 1)) v)) =
     Inr (map (\<lambda>i. c * exp (- (\<Sum>j<n_cols M. elem M i j * v ! j))) [0..<n_rows M])"
  by (simp add: scalar_times_def arma_exp_def mat_times_vec_def mat_times_scalar_def
      sum_list_sum_nth atLeast0LessThan sum_negf)

lemma staticcov_parameters_Inr:
  assumes "staticcov_parameters vParams mCov_life mCov_trans = Inr P"
  shows "5 + n_cols mCov_life + n_cols mCov_trans \<le> length vParams
     \<and> 1 \<le> n_cols mCov_life \<and> 1 \<le> n_cols mCov_trans
     \<and> d_r P = exp (vParams ! 0) \<and> d_alpha_0 P = exp (vParams ! 1)
     \<and> d_b P = exp (vParams ! 2) \<and> d_s P = exp (vParams ! 3)
     \<and> d_beta_0 P = exp (vParams ! 4)
     \<and> d_vAlpha_i P =
         map (\<lambda>i. exp (vParams ! 1)
                   * exp (- (\<Sum>j<n_cols mCov_trans.
                               elem mCov_trans i j * vParams ! (5 + n_cols mCov_life + j))))
           [0..<n_rows mCov_trans]
     \<and> d_vBeta_i P =
         map (\<lambda>i. exp (vParams ! 4)
                   * exp (- (\<Sum>j<n_cols mCov_life. elem mCov_life i j * vParams ! (5 + j))))
           [0..<n_rows mCov_life]"
proof -
  from assms obtain vLife_params vTrans_params where
    five: "4 < length vParams" and
    sl: "subvec vParams 5 (5 + n_cols mCov_life - 1) = Inr vLife_params" and
    st: "subvec vParams (5 + n_cols mCov_life) (5 + n_cols mCov_life + n_cols mCov_trans - 1)
           = Inr vTrans_params" and
    rest: "(case scalar_times (exp (vParams ! 1))
             (arma_exp (mat_times_vec (mat_times_scalar mCov_trans (- 1)) vTrans_params)) of
        Inl e \<Rightarrow> Inl e | Inr vAlpha_i \<Rightarrow>
     (case scalar_times (exp (vParams ! 4))
             (arma_exp (mat_times_vec (mat_times_scalar mCov_life (- 1)) vLife_params)) of
        Inl e \<Rightarrow> Inl e | Inr vBeta_i \<Rightarrow>
        Inr \<lparr>d_r = exp (vParams ! 0), d_alpha_0 = exp (vParams ! 1), d_b = exp (vParams ! 2),
             d_s = exp (vParams ! 3), d_beta_0 = exp (vParams ! 4),
             d_vAlpha_i = vAlpha_i, d_vBeta_i = vBeta_i\<rparr>)) = Inr P"
    by (auto simp: staticcov_parameters_def vec_at_def Let_def split: sum.splits if_splits)
  from sl have kl: "1 \<le> n_cols mCov_life" "5 + n_cols mCov_life \<le> length vParams"
    and vl: "vLife_params = take (n_cols mCov_life) (drop 5 vParams)"
    by (auto simp: subvec_Inr)
  from st have kt: "1 \<le> n_cols mCov_trans"
    "5 + n_cols mCov_life + n_cols mCov_trans \<le> length vParams"
    and vt: "vTrans_params = take (n_cols mCov_trans) (drop (5 + n_cols mCov_life) vParams)"
    by (auto simp: subvec_Inr)
  have ll: "length vLife_params = n_cols mCov_life" using vl kl kt by simp
  have lt: "length vTrans_params = n_cols mCov_trans" using vt kl kt by simp
  have nl: "vLife_params ! j = vParams ! (5 + j)" if "j < n_cols mCov_life" for j
    using vl kl kt that by simp
  have nt: "vTrans_params ! j = vParams ! (5 + n_cols mCov_life + j)"
    if "j < n_cols mCov_trans" for j
    using vt kl kt that by (simp add: add.assoc)
  from rest have "P = \<lparr>d_r = exp (vParams ! 0), d_alpha_0 = exp (vParams ! 1), d_b = exp (vParams ! 2),
             d_s = exp (vParams ! 3), d_beta_0 = exp (vParams ! 4),
             d_vAlpha_i = map (\<lambda>i. exp (vParams ! 1)
                   * exp (- (\<Sum>j<n_cols mCov_trans. elem mCov_trans i j * vTrans_params ! j)))
                 [0..<n_rows mCov_trans],
             d_vBeta_i = map (\<lambda>i. exp (vParams ! 4)
                   * exp (- (\<Sum>j<n_cols mCov_life. elem mCov_life i j * vLife_params ! j)))
                 [0..<n_rows mCov_life]\<rparr>"
    by (simp add: cov_product [OF ll] cov_product [OF lt])
  then show ?thesis using kl kt by (simp add: nl nt)
qed

lemma staticcov_parameters_total:
  assumes "5 + n_cols mCov_life + n_cols mCov_trans \<le> length vParams"
    and "1 \<le> n_cols mCov_life" and "1 \<le> n_cols mCov_trans"
  shows "\<exists>P. staticcov_parameters vParams mCov_life mCov_trans = Inr P"
proof -
  have sl: "subvec vParams 5 (5 + n_cols mCov_life - 1)
              = Inr (take (n_cols mCov_life) (drop 5 vParams))"
    using assms by (simp add: subvec_def)
  have st: "subvec vParams (5 + n_cols mCov_life) (5 + n_cols mCov_life + n_cols mCov_trans - 1)
              = Inr (take (n_cols mCov_trans) (drop (5 + n_cols mCov_life) vParams))"
    using assms by (simp add: subvec_def)
  have ll: "length (take (n_cols mCov_life) (drop 5 vParams)) = n_cols mCov_life"
    using assms by simp
  have lt: "length (take (n_cols mCov_trans) (drop (5 + n_cols mCov_life) vParams))
              = n_cols mCov_trans"
    using assms by simp
  have v: "vec_at vParams 0 = Inr (vParams ! 0)" "vec_at vParams 1 = Inr (vParams ! 1)"
    "vec_at vParams 2 = Inr (vParams ! 2)" "vec_at vParams 3 = Inr (vParams ! 3)"
    "vec_at vParams 4 = Inr (vParams ! 4)"
    using assms(1) by (auto simp: vec_at_def)
  show ?thesis
    unfolding staticcov_parameters_def Let_def
    by (simp only: v sl st cov_product [OF ll] cov_product [OF lt] sum.case) blast
qed

lemma staticcov_parameters_Inl:
  "staticcov_parameters vParams mCov_life mCov_trans = Inl e \<Longrightarrow> e = out_of_range"
proof (rule ccontr)
  assume a: "staticcov_parameters vParams mCov_life mCov_trans = Inl e" and "e \<noteq> out_of_range"
  then show False
    apply (simp add: staticcov_parameters_def vec_at_def Let_def split: sum.splits if_splits)
      apply (auto simp: subvec_Inl subvec_Inr scalar_times_def arma_exp_def mat_times_vec_def
        mat_times_scalar_def split: if_splits)
    done
qed

lemma nocov_parameters_Inr:
  assumes "nocov_parameters vLogparams n = Inr P"
  shows "5 \<le> length vLogparams
     \<and> P = \<lparr>d_r = exp (vLogparams ! 0), d_alpha_0 = exp (vLogparams ! 1),
            d_b = exp (vLogparams ! 2), d_s = exp (vLogparams ! 3),
            d_beta_0 = exp (vLogparams ! 4),
            d_vAlpha_i = replicate n (exp (vLogparams ! 1)),
            d_vBeta_i = replicate n (exp (vLogparams ! 4))\<rparr>"
  using assms
  by (auto simp: nocov_parameters_def vec_at_def split: sum.splits if_splits)

lemma zero_coefficients:
  "(\<Sum>j<k. f j * (p5 @ replicate kl 0 @ replicate kt (0::real)) ! (length p5 + j)) = 0"
  if "k \<le> kl + kt"
proof (rule sum.neutral, rule ballI)
  fix j assume "j \<in> {..<k}"
  then have "j < kl + kt" using that by simp
  then have "(replicate kl 0 @ replicate kt (0::real)) ! j = 0"
    by (simp add: nth_append)
  then show "f j * (p5 @ replicate kl 0 @ replicate kt 0) ! (length p5 + j) = 0"
    by (simp add: nth_append)
qed

text \<open>The errors a call can end with, and when the covariate variant returns normally.\<close>

lemma integration_loop_Inl:
  "integration_loop L n tx tcal g acc = (g', Inl e) \<Longrightarrow>
     \<exists>i. integrate_customer L (g\<lparr>globI := i\<rparr>) tx tcal = Inl e"
proof (induction L n tx tcal g acc rule: integration_loop.induct)
  case (1 L n vT_x vT_cal g vIntegrals)
  show ?case
  proof (cases "globI g < n")
    case False
    with "1.prems" show ?thesis
      by (simp add: integration_loop.simps [of L n vT_x vT_cal g vIntegrals])
  next
    case True
    show ?thesis
    proof (cases "integrate_customer L g vT_x vT_cal")
      case (Inl e')
      with True "1.prems" have "e' = e"
        by (simp add: integration_loop.simps [of L n vT_x vT_cal g vIntegrals])
      with Inl have "integrate_customer L (g\<lparr>globI := globI g\<rparr>) vT_x vT_cal = Inl e"
        by simp
      then show ?thesis by blast
    next
      case (Inr res)
      with True "1.prems" have
        "integration_loop L n vT_x vT_cal (g\<lparr>globI := globI g + 1\<rparr>)
           (vIntegrals[globI g := res]) = (g', Inl e)"
        by (simp add: integration_loop.simps [of L n vT_x vT_cal g vIntegrals])
      from "1.IH" [OF True Inr this] show ?thesis by simp
    qed
  qed
qed

lemma integrals_Inl:
  assumes "integrals L r b s vAlpha_i vBeta_i vX vT_x vT_cal = Inl e"
  shows "e = out_of_range"
proof -
  obtain g' where "integration_loop L (length vX) vT_x vT_cal
      (workaround r b s vAlpha_i vBeta_i vX 0) (replicate (length vX) 0) = (g', Inl e)"
    using assms by (simp add: integrals_def) (metis prod.collapse)
  from integration_loop_Inl [OF this] obtain i where
    "integrate_customer L (workaround r b s vAlpha_i vBeta_i vX i) vT_x vT_cal = Inl e"
    by (auto simp: workaround_globI)
  then show ?thesis
    by (simp add: integrate_customer_workaround split: if_splits)
qed

lemma LL_ind_Inl:
  assumes "returned (ggomnbd_LL_ind L g r b s vAlpha_i vBeta_i vX vT_x vT_cal) = Inl e"
  shows "e = out_of_range \<or> e = logic_error"
  using assms
  by (auto simp: returned_LL_ind split: sum.splits
      dest: boundaries_Inl integrals_Inl vLL_Inl)

lemma staticcov_succeeds_iff:
  "(\<exists>ll. returned (ggomnbd_staticcov_LL_ind L g vParams vX vT_x vT_cal mCov_life mCov_trans)
           = Inr ll) \<longleftrightarrow>
     5 + n_cols mCov_life + n_cols mCov_trans \<le> length vParams
     \<and> 1 \<le> n_cols mCov_life \<and> 1 \<le> n_cols mCov_trans \<and> vX \<noteq> []
     \<and> n_rows mCov_life = length vX \<and> n_rows mCov_trans = length vX
     \<and> length vT_cal = length vX \<and> length vX \<le> length vT_x"
  (is "?lhs \<longleftrightarrow> ?rhs")
proof (cases "staticcov_parameters vParams mCov_life mCov_trans")
  case (Inl e)
  then have "\<not> ?lhs" by (simp add: ggomnbd_staticcov_LL_ind_def)
  moreover have "\<not> ?rhs"
  proof
    assume ?rhs
    then have "\<exists>P. staticcov_parameters vParams mCov_life mCov_trans = Inr P"
      by (intro staticcov_parameters_total) simp_all
    with Inl show False by simp
  qed
  ultimately show ?thesis by blast
next
  case (Inr Q)
  note S = staticcov_parameters_Inr [OF Inr]
  from S have la: "length (d_vAlpha_i Q) = n_rows mCov_trans"
    and lb: "length (d_vBeta_i Q) = n_rows mCov_life"
    by simp_all
  have "?lhs \<longleftrightarrow> (\<exists>ll. returned (ggomnbd_LL_ind L g (d_r Q) (d_b Q) (d_s Q) (d_vAlpha_i Q)
                        (d_vBeta_i Q) vX vT_x vT_cal) = Inr ll)"
    using Inr by (simp add: ggomnbd_staticcov_LL_ind_def)
  also have "\<dots> \<longleftrightarrow> vX \<noteq> [] \<and> n_rows mCov_trans = length vX \<and> n_rows mCov_life = length vX
     \<and> length vT_cal = length vX \<and> length vX \<le> length vT_x"
    by (simp only: LL_ind_succeeds_iff la lb)
  also have "\<dots> \<longleftrightarrow> ?rhs" using S by auto
  finally show ?thesis .
qed

text \<open>
  Over the reals the expression of line 94, \<open>log(exp(L1) + exp(L2))\<close>, and the form
  \<open>max(L1, L2) + log1p(exp(-|L1 - L2|))\<close> are the same function. They differ in
  floating-point arithmetic only, which this embedding does not represent.
\<close>

lemma log_sum_exp_stabilized:
  fixes l1 l2 :: real
  shows "ln (exp l1 + exp l2) = max l1 l2 + ln (1 + exp (- \<bar>l1 - l2\<bar>))"
proof -
  have *: "ln (exp a + exp c) = a + ln (1 + exp (c - a))" for a c :: real
  proof -
    have "exp a + exp c = exp a * (1 + exp (c - a))"
      by (simp add: algebra_simps exp_diff)
    moreover have "0 < 1 + exp (c - a)"
      by (simp add: add_pos_pos)
    ultimately show ?thesis
      by (simp add: ln_mult)
  qed
  show ?thesis
  proof (cases "l2 \<le> l1")
    case True
    then show ?thesis using * [of l1 l2] by (simp add: max_def)
  next
    case False
    then show ?thesis using * [of l2 l1] by (simp add: max_def add.commute)
  qed
qed

lemma golden_integral_positive: "0 < 10 * kernel 1 (1 / 100) 1 1 1 0 5"
  by (simp add: kernel_def pow_def)





subsection \<open>The Sum entry points\<close>

text \<open>
  Claim C5. For both model variants the Sum entry point returns the negated sum of the
  per-customer values that the individual entry point returns on the same inputs, and
  it fails with the same error when the individual entry point fails.
\<close>

theorem sum_is_negated_sum:
  "returned (ggomnbd_nocov_LL_sum L g vLogparams vX vT_x vT_cal) =
     (case returned (ggomnbd_nocov_LL_ind L g vLogparams vX vT_x vT_cal) of
        Inl e \<Rightarrow> Inl e | Inr ll \<Rightarrow> Inr (- (\<Sum>i<length ll. ll ! i)))
   \<and> returned (ggomnbd_staticcov_LL_sum L g vParams vX vT_x vT_cal mCov_life mCov_trans) =
     (case returned (ggomnbd_staticcov_LL_ind L g vParams vX vT_x vT_cal mCov_life mCov_trans) of
        Inl e \<Rightarrow> Inl e | Inr ll \<Rightarrow> Inr (- (\<Sum>i<length ll. ll ! i)))"
  by (simp add: ggomnbd_nocov_LL_sum_def ggomnbd_staticcov_LL_sum_def Let_def
      sum_list_sum_nth atLeast0LessThan split: sum.splits)

subsection \<open>The empty batch\<close>

text \<open>
  Claim C10. With no customers (\<open>x\<close>, \<open>t_x\<close> and \<open>t_cal\<close> empty) no entry point
  returns an empty vector or the sum 0: each one fails. When the parameter vector can
  be decoded, the failure is the one of taking the extrema of an empty vector in the
  pre-integration heuristic.
\<close>

theorem empty_batch_fails:
  assumes "vX = []" and "vT_x = []" and "vT_cal = []"
  shows "returned (ggomnbd_nocov_LL_ind L g vLogparams vX vT_x vT_cal) =
           Inl (if length vLogparams < 5 then out_of_range else logic_error)
       \<and> returned (ggomnbd_nocov_LL_sum L g vLogparams vX vT_x vT_cal) =
           Inl (if length vLogparams < 5 then out_of_range else logic_error)
       \<and> returned (ggomnbd_staticcov_LL_ind L g vParams vX vT_x vT_cal mCov_life mCov_trans) =
           Inl (case staticcov_parameters vParams mCov_life mCov_trans of
                  Inl e \<Rightarrow> e | Inr P \<Rightarrow> logic_error)
       \<and> returned (ggomnbd_staticcov_LL_sum L g vParams vX vT_x vT_cal mCov_life mCov_trans) =
           Inl (case staticcov_parameters vParams mCov_life mCov_trans of
                  Inl e \<Rightarrow> e | Inr P \<Rightarrow> logic_error)"
proof -
  have n1: "returned (ggomnbd_nocov_LL_ind L g vLogparams vX vT_x vT_cal) =
           Inl (if length vLogparams < 5 then out_of_range else logic_error)"
  proof (cases "length vLogparams < 5")
    case True
    then show ?thesis
      by (simp add: ggomnbd_nocov_LL_ind_def nocov_parameters_short)
  next
    case False
    then have "\<not> isl (nocov_parameters vLogparams (length vX))"
      by (simp add: nocov_parameters_isl)
    then obtain P where "nocov_parameters vLogparams (length vX) = Inr P"
      by (cases "nocov_parameters vLogparams (length vX)") auto
    with False show ?thesis
      by (simp add: ggomnbd_nocov_LL_ind_def assms LL_ind_empty_tx)
  qed
  then have n2: "returned (ggomnbd_nocov_LL_sum L g vLogparams vX vT_x vT_cal) =
           Inl (if length vLogparams < 5 then out_of_range else logic_error)"
    by (simp add: ggomnbd_nocov_LL_sum_def Let_def)
  have s1: "returned (ggomnbd_staticcov_LL_ind L g vParams vX vT_x vT_cal mCov_life mCov_trans) =
           Inl (case staticcov_parameters vParams mCov_life mCov_trans of
                  Inl e \<Rightarrow> e | Inr P \<Rightarrow> logic_error)"
    by (cases "staticcov_parameters vParams mCov_life mCov_trans")
       (simp_all add: ggomnbd_staticcov_LL_ind_def assms LL_ind_empty_tx)
  then have s2: "returned (ggomnbd_staticcov_LL_sum L g vParams vX vT_x vT_cal mCov_life mCov_trans) =
           Inl (case staticcov_parameters vParams mCov_life mCov_trans of
                  Inl e \<Rightarrow> e | Inr P \<Rightarrow> logic_error)"
    by (simp add: ggomnbd_staticcov_LL_sum_def Let_def)
  from n1 n2 s1 s2 show ?thesis by blast
qed

theorem empty_batch_fails_witness:
  "returned (ggomnbd_nocov_LL_ind (midpoint_lib 0) initial_globals [0, 0, 0, 0, 0] [] [] [])
     = Inl logic_error
   \<and> returned (ggomnbd_nocov_LL_sum (midpoint_lib 0) initial_globals [0, 0, 0, 0, 0] [] [] [])
     = Inl logic_error
   \<and> returned (ggomnbd_nocov_LL_ind (midpoint_lib 0) initial_globals [0, 0, 0, 0, 0] [] [] [])
     \<noteq> Inr []
   \<and> returned (ggomnbd_nocov_LL_sum (midpoint_lib 0) initial_globals [0, 0, 0, 0, 0] [] [] [])
     \<noteq> Inr 0"
  using empty_batch_fails [of "[]" "[]" "[]" "midpoint_lib 0" initial_globals
      "[0, 0, 0, 0, 0]"]
  by simp

subsection \<open>The per-customer log-likelihood\<close>

text \<open>
  Claim C1. Let \<open>r\<close>, \<open>b\<close> and \<open>s\<close> be positive. Whenever \<open>ggomnbd_LL_ind\<close> returns a
  vector \<open>ll\<close>, it has one entry per customer, and for every customer \<open>i\<close> whose
  logarithms have positive arguments (\<open>alpha_i\<close>, \<open>alpha_i + t_cal_i\<close>, \<open>beta_i\<close>,
  \<open>beta_i - 1 + exp(b*t_cal_i)\<close> and the stored integral \<open>Integral_i\<close>, and \<open>r + x_i\<close> for
  \<^verbatim>\<open>lgamma\<close>), with \<open>G = lgamma(r + x_i) - lgamma(r)\<close>,
  \<open>L1 = G + r*(log(alpha_i) - log(alpha_i + t_cal_i)) - x_i*log(alpha_i + t_cal_i)
        + s*(log(beta_i) - log(beta_i - 1 + exp(b*t_cal_i)))\<close> and
  \<open>L2 = G + log(b) + r*log(alpha_i) + log(s) + s*log(beta_i) + log(Integral_i)\<close>,
  the entry of customer \<open>i\<close> is \<open>log(exp(L1) + exp(L2))\<close>.
\<close>

theorem per_customer_log_likelihood:
  assumes "returned (ggomnbd_LL_ind L g r b s vAlpha_i vBeta_i vX vT_x vT_cal) = Inr ll"
    and "0 < r" and "0 < b" and "0 < s"
  shows "\<exists>vIntegrals.
           integrals L r b s vAlpha_i vBeta_i vX vT_x vT_cal = Inr vIntegrals
           \<and> length vIntegrals = length vX \<and> length ll = length vX
           \<and> (\<forall>i<length vX.
                 0 < r + vX ! i \<and> 0 < vAlpha_i ! i \<and> 0 < vAlpha_i ! i + vT_cal ! i
                 \<and> 0 < vBeta_i ! i \<and> 0 < vBeta_i ! i - 1 + exp (b * vT_cal ! i)
                 \<and> 0 < vIntegrals ! i \<longrightarrow>
                 (let G = lgamma L (r + vX ! i) - lgamma L r;
                      L1 = G + r * (ln (vAlpha_i ! i) - ln (vAlpha_i ! i + vT_cal ! i))
                             - vX ! i * ln (vAlpha_i ! i + vT_cal ! i)
                             + s * (ln (vBeta_i ! i)
                                    - ln (vBeta_i ! i - 1 + exp (b * vT_cal ! i)));
                      L2 = G + ln b + r * ln (vAlpha_i ! i) + ln s + s * ln (vBeta_i ! i)
                             + ln (vIntegrals ! i)
                  in ll ! i = ln (exp L1 + exp L2)))"
proof -
  from assms(1) obtain p vIntegrals where
    v: "integrals L r b s vAlpha_i vBeta_i vX vT_x vT_cal = Inr vIntegrals" and
    l: "vLL L r b s vAlpha_i vBeta_i vX vT_cal vIntegrals = Inr ll"
    by (auto simp: returned_LL_ind split: sum.splits)
  note V = vLL_Inr [OF l]
  have "ll ! i = ln (exp (lgamma L (r + vX ! i) - lgamma L r
                         + r * (ln (vAlpha_i ! i) - ln (vAlpha_i ! i + vT_cal ! i))
                         - vX ! i * ln (vAlpha_i ! i + vT_cal ! i)
                         + s * (ln (vBeta_i ! i) - ln (vBeta_i ! i - 1 + exp (b * vT_cal ! i))))
                  + exp (lgamma L (r + vX ! i) - lgamma L r + ln b + r * ln (vAlpha_i ! i)
                         + ln s + s * ln (vBeta_i ! i) + ln (vIntegrals ! i)))"
    if "i < length vX" for i
  proof -
    have e1: "(lgamma L (r + vX ! i) - lgamma L r)
               + (r * (ln (vAlpha_i ! i) - ln (vAlpha_i ! i + vT_cal ! i))
                  + vX ! i * (0 - ln (vAlpha_i ! i + vT_cal ! i))
                  + s * (ln (vBeta_i ! i) - ln (vBeta_i ! i - 1 + exp (b * vT_cal ! i))))
            = lgamma L (r + vX ! i) - lgamma L r
                         + r * (ln (vAlpha_i ! i) - ln (vAlpha_i ! i + vT_cal ! i))
                         - vX ! i * ln (vAlpha_i ! i + vT_cal ! i)
                         + s * (ln (vBeta_i ! i) - ln (vBeta_i ! i - 1 + exp (b * vT_cal ! i)))"
      by (simp add: algebra_simps)
    have e2: "(lgamma L (r + vX ! i) - lgamma L r)
                          + (ln b + r * ln (vAlpha_i ! i) + ln s + s * ln (vBeta_i ! i)
                             + ln (vIntegrals ! i))
            = lgamma L (r + vX ! i) - lgamma L r + ln b + r * ln (vAlpha_i ! i)
                         + ln s + s * ln (vBeta_i ! i) + ln (vIntegrals ! i)"
      by (simp add: algebra_simps)
    from V that show ?thesis unfolding e1 [symmetric] e2 [symmetric] by blast
  qed
  with v V show ?thesis by (simp add: Let_def)
qed

theorem per_customer_log_likelihood_witness:
  "\<exists>ll.
     returned (ggomnbd_LL_ind (midpoint_lib 0) initial_globals 1 (1 / 100) 1 [1] [1] [0] [0] [10])
       = Inr ll
     \<and> integrals (midpoint_lib 0) 1 (1 / 100) 1 [1] [1] [0] [0] [10]
         = Inr [10 * kernel 1 (1 / 100) 1 1 1 0 5]
     \<and> 0 < 10 * kernel 1 (1 / 100) 1 1 1 0 5
     \<and> ll ! 0 = ln (exp (0 - 0 + 1 * (ln 1 - ln (1 + 10)) - 0 * ln (1 + 10)
                          + 1 * (ln 1 - ln (1 - 1 + exp (1 / 100 * 10))))
                   + exp (0 - 0 + ln (1 / 100) + 1 * ln 1 + ln 1 + 1 * ln 1
                          + ln (10 * kernel 1 (1 / 100) 1 1 1 0 5)))"
proof -
  obtain ll where ll:
    "returned (ggomnbd_LL_ind (midpoint_lib 0) initial_globals 1 (1 / 100) 1 [1] [1] [0] [0] [10])
       = Inr ll"
    using LL_ind_succeeds_iff [of "midpoint_lib 0" initial_globals 1 "1 / 100" 1 "[1]" "[1]"
        "[0]" "[0]" "[10]"]
    by auto
  have pos: "(0::real) < 1" "(0::real) < 1 / 100" by simp_all
  from per_customer_log_likelihood [OF ll pos(1) pos(2) pos(1)]
    golden_integrals [of 0] golden_integral_positive ll
  show ?thesis
    by (auto simp: Let_def midpoint_lib_def)
qed

subsection \<open>Purity and independence of the customers\<close>

text \<open>
  Claim C9. What a call returns does not depend on the values the file-scope variables
  hold when it starts, so two calls on the same inputs return the same result; and
  the entry of a customer depends only on \<open>r\<close>, \<open>b\<close>, \<open>s\<close> and that customer's own
  \<open>x\<close>, \<open>t_x\<close>, \<open>t_cal\<close>, \<open>alpha\<close> and \<open>beta\<close>: two successful calls give equal
  entries to customers with equal data, whatever the rest of the two batches.
\<close>

theorem evaluator_pure_and_per_customer:
  "returned (ggomnbd_LL_ind L g r b s vAlpha_i vBeta_i vX vT_x vT_cal)
     = returned (ggomnbd_LL_ind L g' r b s vAlpha_i vBeta_i vX vT_x vT_cal)
   \<and> returned (ggomnbd_nocov_LL_ind L g vLogparams vX vT_x vT_cal)
     = returned (ggomnbd_nocov_LL_ind L g' vLogparams vX vT_x vT_cal)
   \<and> returned (ggomnbd_nocov_LL_sum L g vLogparams vX vT_x vT_cal)
     = returned (ggomnbd_nocov_LL_sum L g' vLogparams vX vT_x vT_cal)
   \<and> returned (ggomnbd_staticcov_LL_ind L g vParams vX vT_x vT_cal mCov_life mCov_trans)
     = returned (ggomnbd_staticcov_LL_ind L g' vParams vX vT_x vT_cal mCov_life mCov_trans)
   \<and> returned (ggomnbd_staticcov_LL_sum L g vParams vX vT_x vT_cal mCov_life mCov_trans)
     = returned (ggomnbd_staticcov_LL_sum L g' vParams vX vT_x vT_cal mCov_life mCov_trans)
   \<and> (returned (ggomnbd_LL_ind L g r b s vAlpha_i vBeta_i vX vT_x vT_cal) = Inr ll
      \<and> returned (ggomnbd_LL_ind L g' r b s vAlpha_i' vBeta_i' vX' vT_x' vT_cal') = Inr ll'
      \<and> i < length vX \<and> j < length vX'
      \<and> vX ! i = vX' ! j \<and> vT_x ! i = vT_x' ! j \<and> vT_cal ! i = vT_cal' ! j
      \<and> vAlpha_i ! i = vAlpha_i' ! j \<and> vBeta_i ! i = vBeta_i' ! j
      \<longrightarrow> ll ! i = ll' ! j)"
proof -
  have n: "returned (ggomnbd_nocov_LL_ind L g vLogparams vX vT_x vT_cal)
     = returned (ggomnbd_nocov_LL_ind L g' vLogparams vX vT_x vT_cal)"
    by (cases "nocov_parameters vLogparams (length vX)")
       (simp_all add: ggomnbd_nocov_LL_ind_def
          LL_ind_globals_irrelevant(1) [of L g _ _ _ _ _ _ _ _ g'])
  have c: "returned (ggomnbd_staticcov_LL_ind L g vParams vX vT_x vT_cal mCov_life mCov_trans)
     = returned (ggomnbd_staticcov_LL_ind L g' vParams vX vT_x vT_cal mCov_life mCov_trans)"
    by (cases "staticcov_parameters vParams mCov_life mCov_trans")
       (simp_all add: ggomnbd_staticcov_LL_ind_def
          LL_ind_globals_irrelevant(1) [of L g _ _ _ _ _ _ _ _ g'])
  have per_customer: "ll ! i = ll' ! j"
    if h: "returned (ggomnbd_LL_ind L g r b s vAlpha_i vBeta_i vX vT_x vT_cal) = Inr ll
      \<and> returned (ggomnbd_LL_ind L g' r b s vAlpha_i' vBeta_i' vX' vT_x' vT_cal') = Inr ll'
      \<and> i < length vX \<and> j < length vX'
      \<and> vX ! i = vX' ! j \<and> vT_x ! i = vT_x' ! j \<and> vT_cal ! i = vT_cal' ! j
      \<and> vAlpha_i ! i = vAlpha_i' ! j \<and> vBeta_i ! i = vBeta_i' ! j"
  proof -
    from h have a: "returned (ggomnbd_LL_ind L g r b s vAlpha_i vBeta_i vX vT_x vT_cal) = Inr ll"
      and b: "returned (ggomnbd_LL_ind L g' r b s vAlpha_i' vBeta_i' vX' vT_x' vT_cal') = Inr ll'"
      and i: "i < length vX" and j: "j < length vX'"
      by simp_all
    from h show ?thesis
      by (simp add: LL_ind_nth [OF a i] LL_ind_nth [OF b j])
  qed
  show ?thesis
  proof (intro conjI impI)
    show "returned (ggomnbd_LL_ind L g r b s vAlpha_i vBeta_i vX vT_x vT_cal)
       = returned (ggomnbd_LL_ind L g' r b s vAlpha_i vBeta_i vX vT_x vT_cal)"
      by (rule LL_ind_globals_irrelevant)
    show "returned (ggomnbd_nocov_LL_ind L g vLogparams vX vT_x vT_cal)
       = returned (ggomnbd_nocov_LL_ind L g' vLogparams vX vT_x vT_cal)"
      by (rule n)
    show "returned (ggomnbd_nocov_LL_sum L g vLogparams vX vT_x vT_cal)
       = returned (ggomnbd_nocov_LL_sum L g' vLogparams vX vT_x vT_cal)"
      by (simp only: ggomnbd_nocov_LL_sum_def Let_def run.simps n)
    show "returned (ggomnbd_staticcov_LL_ind L g vParams vX vT_x vT_cal mCov_life mCov_trans)
       = returned (ggomnbd_staticcov_LL_ind L g' vParams vX vT_x vT_cal mCov_life mCov_trans)"
      by (rule c)
    show "returned (ggomnbd_staticcov_LL_sum L g vParams vX vT_x vT_cal mCov_life mCov_trans)
       = returned (ggomnbd_staticcov_LL_sum L g' vParams vX vT_x vT_cal mCov_life mCov_trans)"
      by (simp only: ggomnbd_staticcov_LL_sum_def Let_def run.simps c)
  next
    assume "returned (ggomnbd_LL_ind L g r b s vAlpha_i vBeta_i vX vT_x vT_cal) = Inr ll
      \<and> returned (ggomnbd_LL_ind L g' r b s vAlpha_i' vBeta_i' vX' vT_x' vT_cal') = Inr ll'
      \<and> i < length vX \<and> j < length vX'
      \<and> vX ! i = vX' ! j \<and> vT_x ! i = vT_x' ! j \<and> vT_cal ! i = vT_cal' ! j
      \<and> vAlpha_i ! i = vAlpha_i' ! j \<and> vBeta_i ! i = vBeta_i' ! j"
    then show "ll ! i = ll' ! j" by (rule per_customer)
  qed
qed

theorem evaluator_pure_and_per_customer_witness:
  "\<exists>ll ll'.
     returned (ggomnbd_LL_ind (midpoint_lib 0) initial_globals 1 (1 / 100) 1
                 [1, 2] [1, 3] [0, 2] [0, 1] [10, 5]) = Inr ll
     \<and> returned (ggomnbd_LL_ind (midpoint_lib 0) (workaround 7 7 7 [] [] [] 9) 1 (1 / 100) 1
                 [2] [3] [2] [1] [5]) = Inr ll'
     \<and> ll ! 1 = ll' ! 0"
proof -
  obtain ll where ll:
    "returned (ggomnbd_LL_ind (midpoint_lib 0) initial_globals 1 (1 / 100) 1
                 [1, 2] [1, 3] [0, 2] [0, 1] [10, 5]) = Inr ll"
    using LL_ind_succeeds_iff [of "midpoint_lib 0" initial_globals 1 "1 / 100" 1 "[1, 2]"
        "[1, 3]" "[0, 2]" "[0, 1]" "[10, 5]"]
    by auto
  obtain ll' where ll':
    "returned (ggomnbd_LL_ind (midpoint_lib 0) (workaround 7 7 7 [] [] [] 9) 1 (1 / 100) 1
                 [2] [3] [2] [1] [5]) = Inr ll'"
    using LL_ind_succeeds_iff [of "midpoint_lib 0" "workaround 7 7 7 [] [] [] 9" 1 "1 / 100" 1
        "[2]" "[3]" "[2]" "[1]" "[5]"]
    by auto
  have "ll ! 1 = ll' ! 0"
    using evaluator_pure_and_per_customer [where L = "midpoint_lib 0" and g = initial_globals
        and r = 1 and b = "1 / 100" and s = 1 and vAlpha_i = "[1, 2]" and vBeta_i = "[1, 3]"
        and vX = "[0, 2]" and vT_x = "[0, 1]" and vT_cal = "[10, 5]"
        and g' = "workaround 7 7 7 [] [] [] 9" and ll = ll and vAlpha_i' = "[2]"
        and vBeta_i' = "[3]" and vX' = "[2]" and vT_x' = "[1]" and vT_cal' = "[5]"
        and ll' = ll' and i = 1 and j = 0] ll ll'
    by simp
  with ll ll' show ?thesis by blast
qed

subsection \<open>The integrals\<close>

text \<open>
  Claim C3, as stated, fails. In the golden scenario the call passes 0, not 1000, as the
  maximal number of subintervals, and when the routine reports that it did not converge
  (status 11, \<^verbatim>\<open>GSL_EMAXITER\<close>) nothing is printed, while the reported value is stored.
\<close>

theorem integral_claim_counterexample:
  "q_limit (qags_request (workaround 1 (1 / 100) 1 [1] [1] [0] 0) 0 10) = 0
   \<and> q_status (gsl_integration_qags (midpoint_lib 11)
                  (qags_request (workaround 1 (1 / 100) 1 [1] [1] [0] 0) 0 10)) = 11
   \<and> printed (ggomnbd_LL_ind (midpoint_lib 11) initial_globals 1 (1 / 100) 1
                [1] [1] [0] [0] [10]) = []
   \<and> integrals (midpoint_lib 11) 1 (1 / 100) 1 [1] [1] [0] [0] [10]
       = Inr [10 * kernel 1 (1 / 100) 1 1 1 0 5]"
proof (intro conjI)
  show "q_limit (qags_request (workaround 1 (1 / 100) 1 [1] [1] [0] 0) 0 10) = 0"
    by (simp add: qags_request_def)
  show "q_status (gsl_integration_qags (midpoint_lib 11)
                  (qags_request (workaround 1 (1 / 100) 1 [1] [1] [0] 0) 0 10)) = 11"
    by (simp add: midpoint_lib_def)
  show "printed (ggomnbd_LL_ind (midpoint_lib 11) initial_globals 1 (1 / 100) 1
                [1] [1] [0] [0] [10]) = []"
    by (simp add: printed_LL_ind golden_boundaries divergence_warnings_def pow_def)
  show "integrals (midpoint_lib 11) 1 (1 / 100) 1 [1] [1] [0] [0] [10]
       = Inr [10 * kernel 1 (1 / 100) 1 1 1 0 5]"
    by (rule golden_integrals)
qed

text \<open>
  Claim C3, amended. When the loop of integrations completes, \<open>Integral_i\<close> is the
  result value of a call of the quadrature routine on the integrand
  \<open>f(y) = (y + alpha_i)^-(r + x_i) * (beta_i + exp(b*y) - 1)^-(s + 1) * exp(b*y)\<close> over
  \<open>[t_x_i, t_cal_i]\<close> with both tolerances \<open>1e-8\<close> and a workspace for 1000 subintervals.
  The status of the call is discarded: whatever status the routine reports, its result
  value is stored and used (the value returned by \<open>ggomnbd_LL_ind\<close> depends on the
  routine through its result values only), and what is printed does not depend on the
  routine at all.
\<close>

theorem integral_call_and_status:
  "(integrals L r b s vAlpha_i vBeta_i vX vT_x vT_cal = Inr vIntegrals \<longrightarrow>
      length vIntegrals = length vX
      \<and> (\<forall>i<length vX. \<exists>c.
            vIntegrals ! i = q_result (gsl_integration_qags L c)
            \<and> q_f c = (\<lambda>y. pow (y + vAlpha_i ! i) (- (r + vX ! i))
                            * pow (vBeta_i ! i + exp (b * y) - 1) (- (s + 1))
                            * exp (b * y))
            \<and> q_a c = vT_x ! i \<and> q_b c = vT_cal ! i
            \<and> q_epsabs c = 1 / 10 ^ 8 \<and> q_epsrel c = 1 / 10 ^ 8
            \<and> q_workspace c = 1000))
   \<and> (lgamma L' = lgamma L
      \<and> (\<forall>c. q_result (gsl_integration_qags L' c) = q_result (gsl_integration_qags L c))
      \<longrightarrow> returned (ggomnbd_LL_ind L' g r b s vAlpha_i vBeta_i vX vT_x vT_cal)
            = returned (ggomnbd_LL_ind L g r b s vAlpha_i vBeta_i vX vT_x vT_cal))
   \<and> printed (ggomnbd_LL_ind L' g r b s vAlpha_i vBeta_i vX vT_x vT_cal)
       = printed (ggomnbd_LL_ind L g r b s vAlpha_i vBeta_i vX vT_x vT_cal)"
proof (intro conjI impI)
  assume v: "integrals L r b s vAlpha_i vBeta_i vX vT_x vT_cal = Inr vIntegrals"
  note I = integrals_Inr [OF v]
  then show "length vIntegrals = length vX" by simp
  show "\<forall>i<length vX. \<exists>c.
            vIntegrals ! i = q_result (gsl_integration_qags L c)
            \<and> q_f c = (\<lambda>y. pow (y + vAlpha_i ! i) (- (r + vX ! i))
                            * pow (vBeta_i ! i + exp (b * y) - 1) (- (s + 1))
                            * exp (b * y))
            \<and> q_a c = vT_x ! i \<and> q_b c = vT_cal ! i
            \<and> q_epsabs c = 1 / 10 ^ 8 \<and> q_epsrel c = 1 / 10 ^ 8
            \<and> q_workspace c = 1000"
  proof (intro allI impI)
    fix i assume i: "i < length vX"
    let ?c = "\<lparr>q_f = kernel r b s (vAlpha_i ! i) (vBeta_i ! i) (vX ! i),
                q_a = vT_x ! i, q_b = vT_cal ! i,
                q_epsabs = 1 / 10 ^ 8, q_epsrel = 1 / 10 ^ 8,
                q_limit = 0, q_workspace = 1000\<rparr>"
    have "vIntegrals ! i = q_result (gsl_integration_qags L ?c)"
      using I i by blast
    moreover have "q_f ?c = (\<lambda>y. pow (y + vAlpha_i ! i) (- (r + vX ! i))
                            * pow (vBeta_i ! i + exp (b * y) - 1) (- (s + 1))
                            * exp (b * y))"
      by (simp add: kernel_def fun_eq_iff)
    ultimately show "\<exists>c.
            vIntegrals ! i = q_result (gsl_integration_qags L c)
            \<and> q_f c = (\<lambda>y. pow (y + vAlpha_i ! i) (- (r + vX ! i))
                            * pow (vBeta_i ! i + exp (b * y) - 1) (- (s + 1))
                            * exp (b * y))
            \<and> q_a c = vT_x ! i \<and> q_b c = vT_cal ! i
            \<and> q_epsabs c = 1 / 10 ^ 8 \<and> q_epsrel c = 1 / 10 ^ 8
            \<and> q_workspace c = 1000"
      by (intro exI [of _ ?c]) simp
  qed
next
  assume h: "lgamma L' = lgamma L
      \<and> (\<forall>c. q_result (gsl_integration_qags L' c) = q_result (gsl_integration_qags L c))"
  then have "integrals L' r b s vAlpha_i vBeta_i vX vT_x vT_cal
             = integrals L r b s vAlpha_i vBeta_i vX vT_x vT_cal"
    unfolding integrals_def
    by (intro arg_cong [where f = snd] integration_loop_cong_lib) simp
  moreover have "vLL L' r b s vAlpha_i vBeta_i vX vT_cal v = vLL L r b s vAlpha_i vBeta_i vX vT_cal v"
    for v using h by (intro vLL_cong_lib) simp
  ultimately show "returned (ggomnbd_LL_ind L' g r b s vAlpha_i vBeta_i vX vT_x vT_cal)
            = returned (ggomnbd_LL_ind L g r b s vAlpha_i vBeta_i vX vT_x vT_cal)"
    by (simp only: returned_LL_ind)
next
  show "printed (ggomnbd_LL_ind L' g r b s vAlpha_i vBeta_i vX vT_x vT_cal)
       = printed (ggomnbd_LL_ind L g r b s vAlpha_i vBeta_i vX vT_x vT_cal)"
    by (simp add: printed_LL_ind)
qed

theorem integral_call_and_status_witness:
  "\<exists>c. 10 * kernel 1 (1 / 100) 1 1 1 0 5 = q_result (gsl_integration_qags (midpoint_lib 0) c)
       \<and> q_a c = 0 \<and> q_b c = 10 \<and> q_epsabs c = 1 / 10 ^ 8 \<and> q_epsrel c = 1 / 10 ^ 8
       \<and> q_workspace c = 1000"
proof -
  have "integrals (midpoint_lib 0) 1 (1 / 100) 1 [1] [1] [0] [0] [10]
          = Inr [10 * kernel 1 (1 / 100) 1 1 1 0 5] \<longrightarrow>
        length [10 * kernel 1 (1 / 100) 1 1 1 0 5] = length [0::real]
        \<and> (\<forall>i<length [0::real]. \<exists>c.
            [10 * kernel 1 (1 / 100) 1 1 1 0 5] ! i = q_result (gsl_integration_qags (midpoint_lib 0) c)
            \<and> q_f c = (\<lambda>y. pow (y + [1] ! i) (- (1 + [0] ! i))
                            * pow ([1] ! i + exp (1 / 100 * y) - 1) (- (1 + 1))
                            * exp (1 / 100 * y))
            \<and> q_a c = [0] ! i \<and> q_b c = [10] ! i
            \<and> q_epsabs c = 1 / 10 ^ 8 \<and> q_epsrel c = 1 / 10 ^ 8
            \<and> q_workspace c = 1000)"
    using integral_call_and_status [where L = "midpoint_lib 0" and r = 1 and b = "1 / 100"
        and s = 1 and vAlpha_i = "[1]" and vBeta_i = "[1]" and vX = "[0]" and vT_x = "[0]"
        and vT_cal = "[10]" and vIntegrals = "[10 * kernel 1 (1 / 100) 1 1 1 0 5]"]
    by (rule conjunct1)
  from this golden_integrals [of 0]
  have "length [10 * kernel 1 (1 / 100) 1 1 1 0 5] = length [0::real]
        \<and> (\<forall>i<length [0::real]. \<exists>c.
            [10 * kernel 1 (1 / 100) 1 1 1 0 5] ! i = q_result (gsl_integration_qags (midpoint_lib 0) c)
            \<and> q_f c = (\<lambda>y. pow (y + [1] ! i) (- (1 + [0] ! i))
                            * pow ([1] ! i + exp (1 / 100 * y) - 1) (- (1 + 1))
                            * exp (1 / 100 * y))
            \<and> q_a c = [0] ! i \<and> q_b c = [10] ! i
            \<and> q_epsabs c = 1 / 10 ^ 8 \<and> q_epsrel c = 1 / 10 ^ 8
            \<and> q_workspace c = 1000)"
    by (rule mp)
  then have "\<exists>c.
            [10 * kernel 1 (1 / 100) 1 1 1 0 5] ! 0 = q_result (gsl_integration_qags (midpoint_lib 0) c)
            \<and> q_f c = (\<lambda>y. pow (y + [1] ! 0) (- (1 + [0] ! 0))
                            * pow ([1] ! 0 + exp (1 / 100 * y) - 1) (- (1 + 1))
                            * exp (1 / 100 * y))
            \<and> q_a c = [0] ! 0 \<and> q_b c = [10] ! 0
            \<and> q_epsabs c = 1 / 10 ^ 8 \<and> q_epsrel c = 1 / 10 ^ 8
            \<and> q_workspace c = 1000"
    by simp
  then obtain c where
    "[10 * kernel 1 (1 / 100) 1 1 1 0 5] ! 0 = q_result (gsl_integration_qags (midpoint_lib 0) c)"
    "q_a c = [0] ! 0" "q_b c = [10] ! 0" "q_epsabs c = 1 / 10 ^ 8" "q_epsrel c = 1 / 10 ^ 8"
    "q_workspace c = 1000"
    by blast
  then show ?thesis
    by (intro exI [of _ c]) simp
qed

subsection \<open>The pre-integration diagnostic\<close>




subsection \<open>Covariates with zero coefficients\<close>

text \<open>
  Claim C6, as stated, fails when a covariate matrix has no column: the coefficient
  vector of that process is then empty, \<^verbatim>\<open>subvec\<close> on line 247 is called with a last index
  below the first and throws, and the static-covariate evaluator fails where the
  no-covariate evaluator returns.
\<close>

theorem covariate_collapse_counterexample:
  "returned (ggomnbd_staticcov_LL_ind (midpoint_lib 0) initial_globals
      ([0, 0, 0, 0, 0] @ replicate 0 0 @ replicate 1 0) [0] [0] [10]
      \<lparr>n_rows = 1, n_cols = 0, elem = (\<lambda>i j. 3)\<rparr>
      \<lparr>n_rows = 1, n_cols = 1, elem = (\<lambda>i j. 7)\<rparr>) = Inl out_of_range
   \<and> \<not> isl (returned
         (ggomnbd_nocov_LL_ind (midpoint_lib 0) initial_globals [0, 0, 0, 0, 0] [0] [0] [10]))"
proof -
  have s: "staticcov_parameters ([0, 0, 0, 0, 0] @ replicate 0 0 @ replicate 1 0)
      \<lparr>n_rows = 1, n_cols = 0, elem = (\<lambda>i j. 3)\<rparr>
      \<lparr>n_rows = 1, n_cols = 1, elem = (\<lambda>i j. 7)\<rparr> = Inl out_of_range"
    by (simp add: staticcov_parameters_def vec_at_def subvec_def Let_def)
  have "\<exists>ll. returned (ggomnbd_LL_ind (midpoint_lib 0) initial_globals (exp 0) (exp 0) (exp 0)
           [exp 0] [exp 0] [0] [0] [10]) = Inr ll"
    by (simp only: LL_ind_succeeds_iff) simp
  then have n: "\<not> isl (returned
         (ggomnbd_nocov_LL_ind (midpoint_lib 0) initial_globals [0, 0, 0, 0, 0] [0] [0] [10]))"
    by (auto simp: ggomnbd_nocov_LL_ind_def nocov_parameters_def vec_at_def)
  from s n show ?thesis
    by (simp add: ggomnbd_staticcov_LL_ind_def)
qed

text \<open>
  Claim C6, amended. With covariate matrices of one row per customer and at least one
  column each, the static-covariate evaluator called with the five log-scale parameters
  followed by all-zero coefficient vectors does exactly what the no-covariate evaluator
  does on the same five parameters and the same \<open>x\<close>, \<open>t_x\<close>, \<open>t_cal\<close>: the same
  per-customer vector, or the same failure, and the same diagnostics.
\<close>

theorem covariate_collapse:
  assumes "length p5 = 5" and "1 \<le> n_cols mCov_life" and "1 \<le> n_cols mCov_trans"
    and "n_rows mCov_life = length vX" and "n_rows mCov_trans = length vX"
  shows "ggomnbd_staticcov_LL_ind L g
           (p5 @ replicate (n_cols mCov_life) 0 @ replicate (n_cols mCov_trans) 0)
           vX vT_x vT_cal mCov_life mCov_trans
         = ggomnbd_nocov_LL_ind L g p5 vX vT_x vT_cal"
proof -
  let ?p = "p5 @ replicate (n_cols mCov_life) 0 @ replicate (n_cols mCov_trans) 0"
  have len: "5 + n_cols mCov_life + n_cols mCov_trans \<le> length ?p"
    using assms by simp
  from staticcov_parameters_total [OF len assms(2,3)] obtain Q where
    Q: "staticcov_parameters ?p mCov_life mCov_trans = Inr Q" by blast
  have "\<not> isl (nocov_parameters p5 (length vX))"
    using assms by (simp add: nocov_parameters_isl)
  then obtain P where P: "nocov_parameters p5 (length vX) = Inr P"
    by (cases "nocov_parameters p5 (length vX)") auto
  note S = staticcov_parameters_Inr [OF Q] and N = nocov_parameters_Inr [OF P]
  have z1: "(\<Sum>j<n_cols mCov_trans. elem mCov_trans i j * ?p ! (5 + n_cols mCov_life + j)) = 0"
    for i
  proof -
    have "(\<Sum>j<n_cols mCov_trans. elem mCov_trans i j * ?p ! (5 + n_cols mCov_life + j))
          = (\<Sum>j<n_cols mCov_trans.
               elem mCov_trans i j * (replicate (n_cols mCov_trans) (0::real)) ! j)"
      using assms(1) by (simp add: nth_append)
    then show ?thesis by simp
  qed
  have z2: "(\<Sum>j<n_cols mCov_life. elem mCov_life i j * ?p ! (5 + j)) = 0" for i
    using zero_coefficients [of "n_cols mCov_life" "n_cols mCov_life" "n_cols mCov_trans"
        "elem mCov_life i" p5] assms(1)
    by simp
  have five: "?p ! i = p5 ! i" if "i < 5" for i
    using assms(1) that by (simp add: nth_append)
  have a: "d_vAlpha_i Q = replicate (length vX) (exp (p5 ! 1))"
    using S assms(5) by (simp add: z1 five map_replicate_const)
  have b: "d_vBeta_i Q = replicate (length vX) (exp (p5 ! 4))"
    using S assms(4) by (simp add: z2 five map_replicate_const)
  have "Q = P"
    using S N a b by (simp add: five)
  with P Q show ?thesis
    by (simp add: ggomnbd_staticcov_LL_ind_def ggomnbd_nocov_LL_ind_def)
qed

theorem covariate_collapse_witness:
  "ggomnbd_staticcov_LL_ind (midpoint_lib 0) initial_globals
     ([0, 0, 0, 0, 0] @ replicate 1 0 @ replicate 1 0) [0] [0] [10]
     \<lparr>n_rows = 1, n_cols = 1, elem = (\<lambda>i j. 3)\<rparr>
     \<lparr>n_rows = 1, n_cols = 1, elem = (\<lambda>i j. 7)\<rparr>
   = ggomnbd_nocov_LL_ind (midpoint_lib 0) initial_globals [0, 0, 0, 0, 0] [0] [0] [10]
   \<and> \<not> isl (returned
         (ggomnbd_nocov_LL_ind (midpoint_lib 0) initial_globals [0, 0, 0, 0, 0] [0] [0] [10]))"
proof -
  have "\<exists>ll. returned (ggomnbd_LL_ind (midpoint_lib 0) initial_globals (exp 0) (exp 0) (exp 0)
           [exp 0] [exp 0] [0] [0] [10]) = Inr ll"
    by (simp only: LL_ind_succeeds_iff) simp
  then have "\<not> isl (returned
         (ggomnbd_nocov_LL_ind (midpoint_lib 0) initial_globals [0, 0, 0, 0, 0] [0] [0] [10]))"
    by (auto simp: ggomnbd_nocov_LL_ind_def nocov_parameters_def vec_at_def)
  with covariate_collapse [of "[0, 0, 0, 0, 0]"
      "\<lparr>n_rows = 1, n_cols = 1, elem = (\<lambda>i j. 3)\<rparr>"
      "\<lparr>n_rows = 1, n_cols = 1, elem = (\<lambda>i j. 7)\<rparr>" "[0]" "midpoint_lib 0"
      initial_globals "[0]" "[10]"]
  show ?thesis by simp
qed

subsection \<open>Mismatched shapes\<close>

text \<open>
  Claim C4, as stated, fails: a parameter vector with more than \<open>5 + k_life + k_trans\<close>
  entries is accepted and the surplus ignored, and so is a \<open>t_x\<close> with more entries
  than there are customers.
\<close>

theorem shape_mismatch_counterexample:
  "length [0, 0, 0, 0, 0, 0, 0, 99 :: real]
     \<noteq> 5 + n_cols \<lparr>n_rows = 1, n_cols = 1, elem = (\<lambda>i j. 3)\<rparr>
         + n_cols \<lparr>n_rows = 1, n_cols = 1, elem = (\<lambda>i j. 7)\<rparr>
   \<and> \<not> isl (returned (ggomnbd_staticcov_LL_ind (midpoint_lib 0) initial_globals
                [0, 0, 0, 0, 0, 0, 0, 99] [0] [0] [10]
                \<lparr>n_rows = 1, n_cols = 1, elem = (\<lambda>i j. 3)\<rparr>
                \<lparr>n_rows = 1, n_cols = 1, elem = (\<lambda>i j. 7)\<rparr>))
   \<and> length [0, 5 :: real] \<noteq> length [0 :: real]
   \<and> \<not> isl (returned (ggomnbd_staticcov_LL_ind (midpoint_lib 0) initial_globals
                [0, 0, 0, 0, 0, 0, 0] [0] [0, 5] [10]
                \<lparr>n_rows = 1, n_cols = 1, elem = (\<lambda>i j. 3)\<rparr>
                \<lparr>n_rows = 1, n_cols = 1, elem = (\<lambda>i j. 7)\<rparr>))"
proof -
  have a: "\<exists>ll. returned (ggomnbd_staticcov_LL_ind (midpoint_lib 0) initial_globals
                [0, 0, 0, 0, 0, 0, 0, 99] [0] [0] [10]
                \<lparr>n_rows = 1, n_cols = 1, elem = (\<lambda>i j. 3)\<rparr>
                \<lparr>n_rows = 1, n_cols = 1, elem = (\<lambda>i j. 7)\<rparr>) = Inr ll"
    by (simp only: staticcov_succeeds_iff) simp
  have b: "\<exists>ll. returned (ggomnbd_staticcov_LL_ind (midpoint_lib 0) initial_globals
                [0, 0, 0, 0, 0, 0, 0] [0] [0, 5] [10]
                \<lparr>n_rows = 1, n_cols = 1, elem = (\<lambda>i j. 3)\<rparr>
                \<lparr>n_rows = 1, n_cols = 1, elem = (\<lambda>i j. 7)\<rparr>) = Inr ll"
    by (simp only: staticcov_succeeds_iff) simp
  from a b show ?thesis by auto
qed

text \<open>
  Claim C4, amended. A call of a covariate-variant evaluator fails, with the library's
  \<^verbatim>\<open>std::out_of_range\<close> or \<^verbatim>\<open>std::logic_error\<close>, whenever the parameter vector has fewer
  than \<open>5 + k_life + k_trans\<close> entries, \<open>t_x\<close> has fewer entries than \<open>x\<close>, or \<open>t_cal\<close> or
  the row count of a covariate matrix differs from the length of \<open>x\<close>.
\<close>

theorem shape_mismatch_fails:
  assumes "length vParams < 5 + n_cols mCov_life + n_cols mCov_trans
           \<or> length vT_x < length vX \<or> length vT_cal \<noteq> length vX
           \<or> n_rows mCov_life \<noteq> length vX \<or> n_rows mCov_trans \<noteq> length vX"
  shows "\<exists>e. (e = out_of_range \<or> e = logic_error)
           \<and> returned (ggomnbd_staticcov_LL_ind L g vParams vX vT_x vT_cal mCov_life mCov_trans)
               = Inl e
           \<and> returned (ggomnbd_staticcov_LL_sum L g vParams vX vT_x vT_cal mCov_life mCov_trans)
               = Inl e"
proof -
  have "\<not> (\<exists>ll. returned (ggomnbd_staticcov_LL_ind L g vParams vX vT_x vT_cal mCov_life mCov_trans)
           = Inr ll)"
    using assms by (simp only: staticcov_succeeds_iff) auto
  then obtain e where e:
    "returned (ggomnbd_staticcov_LL_ind L g vParams vX vT_x vT_cal mCov_life mCov_trans) = Inl e"
    by (cases "returned (ggomnbd_staticcov_LL_ind L g vParams vX vT_x vT_cal mCov_life mCov_trans)")
       auto
  have k: "e = out_of_range \<or> e = logic_error"
  proof (cases "staticcov_parameters vParams mCov_life mCov_trans")
    case (Inl e')
    with e show ?thesis
      by (auto simp: ggomnbd_staticcov_LL_ind_def dest: staticcov_parameters_Inl)
  next
    case (Inr Q)
    with e show ?thesis
      by (auto simp: ggomnbd_staticcov_LL_ind_def dest: LL_ind_Inl)
  qed
  from e have "returned (ggomnbd_staticcov_LL_sum L g vParams vX vT_x vT_cal mCov_life mCov_trans)
               = Inl e"
    by (simp add: ggomnbd_staticcov_LL_sum_def Let_def)
  with e k show ?thesis by blast
qed

theorem shape_mismatch_fails_witness:
  "\<exists>e. (e = out_of_range \<or> e = logic_error)
     \<and> returned (ggomnbd_staticcov_LL_ind (midpoint_lib 0) initial_globals [0, 0, 0, 0, 0, 0, 0]
           [0] [0] [10]
           \<lparr>n_rows = 2, n_cols = 1, elem = (\<lambda>i j. 3)\<rparr>
           \<lparr>n_rows = 1, n_cols = 1, elem = (\<lambda>i j. 7)\<rparr>) = Inl e
     \<and> returned (ggomnbd_staticcov_LL_sum (midpoint_lib 0) initial_globals [0, 0, 0, 0, 0, 0, 0]
           [0] [0] [10]
           \<lparr>n_rows = 2, n_cols = 1, elem = (\<lambda>i j. 3)\<rparr>
           \<lparr>n_rows = 1, n_cols = 1, elem = (\<lambda>i j. 7)\<rparr>) = Inl e"
  by (rule shape_mismatch_fails) simp

end
